theory Spec2Isabelle
  imports Main "HOL-Library.AList"
begin

section \<open>Text\<close>

text \<open>
  Python strings are modelled as lists of characters with code points below 256, which is
  what \<^typ>\<open>char\<close> holds. The character classes below are Python's classes restricted to
  that range: \<open>str.isspace\<close>, \<open>str.lower\<close> and the class \<open>\w\<close> of the \<open>re\<close> module
  (alphanumeric in the Unicode sense, or the underscore). An upper-case letter of that
  range becomes lower-case by adding 32 to its code point, that is, by setting bit 5.
\<close>

definition code_point :: "char \<Rightarrow> nat" where
  "code_point c = of_char c"

definition py_isspace :: "char \<Rightarrow> bool" where
  "py_isspace c =
     (let n = code_point c
      in (9 \<le> n \<and> n \<le> 13) \<or> (28 \<le> n \<and> n \<le> 32) \<or> n = 133 \<or> n = 160)"

definition py_strip :: "string \<Rightarrow> string" where
  "py_strip s = rev (dropWhile py_isspace (rev (dropWhile py_isspace s)))"

definition strip_chars :: "string \<Rightarrow> string \<Rightarrow> string" where
  "strip_chars cs s =
     rev (dropWhile (\<lambda>c. c \<in> set cs) (rev (dropWhile (\<lambda>c. c \<in> set cs) s)))"

definition py_lower_char :: "char \<Rightarrow> char" where
  "py_lower_char c =
     (let n = code_point c
      in if (65 \<le> n \<and> n \<le> 90) \<or> (192 \<le> n \<and> n \<le> 214) \<or> (216 \<le> n \<and> n \<le> 222)
         then (case c of Char b0 b1 b2 b3 b4 b5 b6 b7 \<Rightarrow> Char b0 b1 b2 b3 b4 True b6 b7)
         else c)"

definition py_lower :: "string \<Rightarrow> string" where
  "py_lower s = map py_lower_char s"

fun starts_with :: "string \<Rightarrow> string \<Rightarrow> bool" where
  "starts_with [] s = True"
| "starts_with (p # ps) [] = False"
| "starts_with (p # ps) (c # cs) = (p = c \<and> starts_with ps cs)"

text \<open>\<open>py_in needle s\<close> is Python's \<open>needle in s\<close> on strings.\<close>

fun py_in :: "string \<Rightarrow> string \<Rightarrow> bool" where
  "py_in needle [] = (needle = [])"
| "py_in needle (c # cs) = (starts_with needle (c # cs) \<or> py_in needle cs)"

text \<open>\<open>remove_all old s\<close> is \<open>s.replace(old, '')\<close>.\<close>

fun remove_all :: "string \<Rightarrow> string \<Rightarrow> string" where
  "remove_all old [] = []"
| "remove_all old (c # cs) =
     (if old \<noteq> [] \<and> starts_with old (c # cs)
      then remove_all old (drop (length old - 1) cs)
      else c # remove_all old cs)"

definition is_word :: "char \<Rightarrow> bool" where
  "is_word c =
     (let n = code_point c
      in (48 \<le> n \<and> n \<le> 57) \<or> (65 \<le> n \<and> n \<le> 90) \<or> n = 95 \<or> (97 \<le> n \<and> n \<le> 122)
         \<or> n = 170 \<or> n = 178 \<or> n = 179 \<or> n = 181 \<or> n = 185 \<or> n = 186
         \<or> (188 \<le> n \<and> n \<le> 190) \<or> (192 \<le> n \<and> n \<le> 214) \<or> (216 \<le> n \<and> n \<le> 246)
         \<or> (248 \<le> n \<and> n \<le> 255))"

text \<open>
  The identifier of a per-entity artifact, from \<open>run_fully_automated_crawler\<close>:
  \<^verbatim>\<open>clean_name = re.sub(r'[^\w]', '_', details['business_name'])[:30]\<close>
\<close>

definition clean_name :: "string \<Rightarrow> string" where
  "clean_name business_name =
     take 30 (map (\<lambda>c. if is_word c then c else CHR ''_'') business_name)"

text \<open>
  The identifier as the specification words it: every run of non-word characters
  becomes one filler character, and the result is cut to 30 characters.
\<close>

fun collapse_runs :: "bool \<Rightarrow> string \<Rightarrow> string" where
  "collapse_runs in_run [] = []"
| "collapse_runs in_run (c # cs) =
     (if is_word c then c # collapse_runs False cs
      else if in_run then collapse_runs True cs
      else CHR ''_'' # collapse_runs True cs)"

definition spec_clean_name :: "string \<Rightarrow> string" where
  "spec_clean_name business_name = take 30 (collapse_runs False business_name)"

section \<open>Python values, exceptions and dictionaries\<close>

text \<open>
  An exception carries its message, which is what \<open>str(e)\<close> returns. \<open>DriverError\<close>
  stands for every exception of the browser driver (a time-out, a closed page, a detached
  element), \<open>OSError\<close> for a failing \<open>open\<close>.
\<close>

datatype exn = TypeError string | ValueError string | OSError string | DriverError string

fun exn_message :: "exn \<Rightarrow> string" where
  "exn_message (TypeError m) = m"
| "exn_message (ValueError m) = m"
| "exn_message (OSError m) = m"
| "exn_message (DriverError m) = m"

definition is_serialization_error :: "exn \<Rightarrow> bool" where
  "is_serialization_error e = (case e of TypeError m \<Rightarrow> True | ValueError m \<Rightarrow> True | _ \<Rightarrow> False)"

text \<open>
  The values the crawler handles. \<open>PObj type_name truth\<close> is any object the \<open>json\<close>
  module cannot write (a set, bytes, a handle): it keeps the name of its type, which the
  encoder reports, and its truth value. A dictionary has string keys and keeps its
  insertion order.
\<close>

datatype pyval =
    PNone
  | PStr string
  | PInt int
  | PList "pyval list"
  | PDict "(string \<times> pyval) list"
  | PObj string bool

type_synonym pydict = "(string \<times> pyval) list"

fun truthy :: "pyval \<Rightarrow> bool" where
  "truthy PNone = False"
| "truthy (PStr s) = (s \<noteq> [])"
| "truthy (PInt i) = (i \<noteq> 0)"
| "truthy (PList xs) = (xs \<noteq> [])"
| "truthy (PDict d) = (d \<noteq> [])"
| "truthy (PObj t b) = b"

text \<open>\<open>d.get(k)\<close>, \<open>k in d\<close> and \<open>d[k] = v\<close>.\<close>

definition dict_get :: "pydict \<Rightarrow> string \<Rightarrow> pyval" where
  "dict_get d k = (case map_of d k of None \<Rightarrow> PNone | Some v \<Rightarrow> v)"

definition has_key :: "pydict \<Rightarrow> string \<Rightarrow> bool" where
  "has_key d k = (map_of d k \<noteq> None)"

definition dict_set :: "pydict \<Rightarrow> string \<Rightarrow> pyval \<Rightarrow> pydict" where
  "dict_set d k v = AList.update k v d"

text \<open>
  The encoder of the \<open>json\<close> module walks a value in order and raises \<open>TypeError\<close> at
  the first object it cannot write. \<open>json_fault v\<close> is the type name of that object.
\<close>

fun json_fault :: "pyval \<Rightarrow> string option"
  and json_fault_list :: "pyval list \<Rightarrow> string option"
  and json_fault_items :: "(string \<times> pyval) list \<Rightarrow> string option" where
  "json_fault PNone = None"
| "json_fault (PStr s) = None"
| "json_fault (PInt i) = None"
| "json_fault (PList xs) = json_fault_list xs"
| "json_fault (PDict kvs) = json_fault_items kvs"
| "json_fault (PObj t b) = Some t"
| "json_fault_list [] = None"
| "json_fault_list (x # xs) =
     (case json_fault x of Some t \<Rightarrow> Some t | None \<Rightarrow> json_fault_list xs)"
| "json_fault_items [] = None"
| "json_fault_items (kv # kvs) =
     (case json_fault (snd kv) of Some t \<Rightarrow> Some t | None \<Rightarrow> json_fault_items kvs)"

definition json_error :: "string \<Rightarrow> exn" where
  "json_error t = TypeError (''Object of type '' @ t @ '' is not JSON serializable'')"

section \<open>The clock and the file system\<close>

text \<open>
  One reading of \<open>datetime.now()\<close> in the three formats the crawler uses:
  \<open>strftime("%Y%m%d_%H%M%S")\<close>, \<open>isoformat()\<close> and \<open>strftime("%H%M%S")\<close>.
\<close>

record clock =
  stamp :: string
  iso :: string
  hms :: string

text \<open>
  A file holds a JSON document, the beginning of one (the encoder failed after the file
  was opened), or text. \<open>dirs\<close> lists the paths that name a directory, \<open>denied\<close> the
  paths the operating system refuses to open for writing.
\<close>

datatype filedata = JsonText pyval | PartialJson pyval | Markup string

record filesystem =
  dirs :: "string list"
  denied :: "string list"
  files :: "(string \<times> filedata) list"

definition dirname :: "string \<Rightarrow> string" where
  "dirname p =
     (if CHR ''/'' \<in> set p then rev (tl (dropWhile (\<lambda>c. c \<noteq> CHR ''/'') (rev p))) else [])"

definition basename :: "string \<Rightarrow> string" where
  "basename p = rev (takeWhile (\<lambda>c. c \<noteq> CHR ''/'') (rev p))"

text \<open>
  \<open>open(p, 'w')\<close> succeeds when \<open>p\<close> names a file in an existing directory (the empty
  directory name is the working directory) and the system does not refuse it; otherwise
  it raises \<open>OSError\<close>. An opened file is created or truncated: writing replaces what
  the path held.
\<close>

definition can_open_w :: "filesystem \<Rightarrow> string \<Rightarrow> bool" where
  "can_open_w fs p =
     (basename p \<noteq> [] \<and> p \<notin> set (dirs fs) \<and> p \<notin> set (denied fs)
      \<and> (dirname p = [] \<or> dirname p \<in> set (dirs fs)))"

definition open_error :: "string \<Rightarrow> exn" where
  "open_error p = OSError (''cannot open '' @ p)"

definition write_file :: "filesystem \<Rightarrow> string \<Rightarrow> filedata \<Rightarrow> filesystem" where
  "write_file fs p d = fs\<lparr>files := AList.update p d (files fs)\<rparr>"

definition output_dir :: string where
  "output_dir = ''kansas_business_data''"

text \<open>\<open>os.path.join(a, b)\<close> on POSIX paths.\<close>

definition os_path_join :: "string \<Rightarrow> string \<Rightarrow> string" where
  "os_path_join a b =
     (if starts_with ''/'' b then b
      else if a = [] \<or> last a = CHR ''/'' then a @ b
      else a @ ''/'' @ b)"

text \<open>The file system that \<open>setup_directories\<close> leaves behind when it starts from nothing.\<close>

definition fresh_fs :: filesystem where
  "fresh_fs =
     \<lparr>dirs = [output_dir, output_dir @ ''/json'', output_dir @ ''/html_fallback'',
              output_dir @ ''/errors''],
      denied = [],
      files = []\<rparr>"

section \<open>The rendered page\<close>

text \<open>
  What the browser driver shows of one rendered page. Every driver call may raise, so
  each observation is either an exception or a value. \<open>selectors\<close> gives the outcome of
  \<open>page.query_selector\<close> for the locators that find something or fail; any other
  locator finds nothing. Between two actions or delays the page is taken as stable:
  repeated reads of one page give the same outcome.
\<close>

record element =
  text_content :: "exn + string"
  is_checked :: "exn + bool"

record cell =
  is_th :: bool
  cell_text :: "exn + string"

record row =
  row_cells :: "exn + cell list"
  select_button :: "exn + bool"

type_synonym table = "exn + row list"

record page =
  page_url :: string
  page_title :: "exn + string"
  content :: "exn + string"
  selectors :: "(string \<times> (exn + element option)) list"
  tables :: "exn + table list"
  results_table :: "exn + table option"

definition query_selector :: "page \<Rightarrow> string \<Rightarrow> exn + element option" where
  "query_selector pg selector =
     (case map_of (selectors pg) selector of None \<Rightarrow> Inr None | Some outcome \<Rightarrow> outcome)"

definition bind_exn :: "exn + 'a \<Rightarrow> ('a \<Rightarrow> exn + 'b) \<Rightarrow> exn + 'b" where
  "bind_exn r f = (case r of Inl e \<Rightarrow> Inl e | Inr x \<Rightarrow> f x)"

section \<open>Evidence store\<close>

definition newline :: string where
  "newline = [CHR 0x0A]"

text \<open>
  \<open>save_html_fallback\<close>: the whole body is inside \<open>try\<close>, and the handler returns
  \<open>None\<close>.
\<close>

definition fallback_path :: "clock \<Rightarrow> string \<Rightarrow> string \<Rightarrow> string" where
  "fallback_path clk filename_prefix error_type =
     output_dir @ ''/html_fallback/'' @ filename_prefix @ ''_'' @ error_type @ ''_''
       @ stamp clk @ ''.html''"

definition fallback_text :: "clock \<Rightarrow> page \<Rightarrow> string \<Rightarrow> string \<Rightarrow> string" where
  "fallback_text clk pg error_type html_content =
     ''<!-- Error Type: '' @ error_type @ '' -->'' @ newline
       @ ''<!-- Timestamp: '' @ stamp clk @ '' -->'' @ newline
       @ ''<!-- URL: '' @ page_url pg @ '' -->'' @ newline
       @ html_content"

definition save_html_fallback ::
  "clock \<Rightarrow> page \<Rightarrow> filesystem \<Rightarrow> string \<Rightarrow> string \<Rightarrow> string
     \<Rightarrow> string option \<times> filesystem" where
  "save_html_fallback clk pg fs html_content filename_prefix error_type =
     (let filename = fallback_path clk filename_prefix error_type
      in if can_open_w fs filename
         then (Some filename,
               write_file fs filename (Markup (fallback_text clk pg error_type html_content)))
         else (None, fs))"

text \<open>
  \<open>save_error_log\<close>: again one \<open>try\<close> around the body, the handler returns \<open>None\<close>.
  The markup is captured only when \<open>page_source\<close> is given and not empty.
\<close>

definition save_error_log ::
  "clock \<Rightarrow> page \<Rightarrow> filesystem \<Rightarrow> string \<Rightarrow> string \<Rightarrow> string option
     \<Rightarrow> string option \<times> filesystem" where
  "save_error_log clk pg fs search_term error_message page_source =
     (let timestamp = stamp clk;
          error_data = PDict [(''search_term'', PStr search_term),
                              (''error_message'', PStr error_message),
                              (''timestamp'', PStr timestamp),
                              (''url'', PStr (page_url pg)),
                              (''error_type'', PStr ''crawling_error'')];
          error_json_file = output_dir @ ''/errors/error_'' @ search_term @ ''_'' @ timestamp
                              @ ''.json''
      in if can_open_w fs error_json_file
         then (let fs1 = write_file fs error_json_file (JsonText error_data);
                   fs2 = (case page_source of
                            None \<Rightarrow> fs1
                          | Some src \<Rightarrow>
                              if src \<noteq> []
                              then snd (save_html_fallback clk pg fs1 src
                                          (''error_'' @ search_term) ''page_capture'')
                              else fs1)
               in (Some error_json_file, fs2))
         else (None, fs))"

text \<open>
  \<open>safe_extract_json_data\<close>. A dictionary gets the three provenance keys, whatever it
  held under them before. \<open>render\<close> is the interpreter's \<open>str()\<close>, taken as a parameter.
  The handler catches \<open>TypeError\<close> and \<open>ValueError\<close> only, and reads the page markup
  outside any \<open>try\<close>.
\<close>

definition add_metadata :: "clock \<Rightarrow> pyval \<Rightarrow> string \<Rightarrow> pyval" where
  "add_metadata clk business_data search_term =
     (case business_data of
        PDict d \<Rightarrow>
          PDict (dict_set (dict_set (dict_set d ''search_term'' (PStr search_term))
                             ''extracted_at'' (PStr (iso clk)))
                   ''status'' (PStr ''success''))
      | other \<Rightarrow> other)"

definition string_or_none :: "string option \<Rightarrow> pyval" where
  "string_or_none r = (case r of None \<Rightarrow> PNone | Some s \<Rightarrow> PStr s)"

definition safe_extract_json_data ::
  "(pyval \<Rightarrow> string) \<Rightarrow> clock \<Rightarrow> page \<Rightarrow> filesystem \<Rightarrow> pyval \<Rightarrow> string
     \<Rightarrow> (exn + pyval \<times> string option) \<times> filesystem" where
  "safe_extract_json_data render clk pg fs business_data0 search_term =
     (let business_data = add_metadata clk business_data0 search_term
      in case json_fault business_data of
           None \<Rightarrow> (Inr (business_data, None), fs)
         | Some t \<Rightarrow>
             (case content pg of
                Inl driver_failure \<Rightarrow> (Inl driver_failure, fs)
              | Inr markup \<Rightarrow>
                  (let saved = save_html_fallback clk pg fs markup
                                 (''json_fail_'' @ search_term) ''serialization_error'';
                       html_file = fst saved;
                       error_data =
                         PDict [(''search_term'', PStr search_term),
                                (''status'', PStr ''error''),
                                (''error_type'', PStr ''json_serialization_failed''),
                                (''error_message'', PStr (exn_message (json_error t))),
                                (''scraped_at'', PStr (iso clk)),
                                (''html_fallback_file'', string_or_none html_file),
                                (''partial_business_data'',
                                   if truthy business_data
                                   then PStr (take 500 (render business_data)) else PNone)]
                   in (Inr (error_data, html_file), snd saved))))"

text \<open>
  \<open>save_data_with_fallback\<close>. A failing \<open>open\<close> raises \<open>OSError\<close>, which the handler
  for \<open>(TypeError, ValueError)\<close> does not catch. \<open>f.write\<close> of a value that is not a
  string raises \<open>TypeError\<close> after the file was truncated. Inside the handler nothing is
  guarded: the markup read and the \<open>open\<close> of the error file may raise.
\<close>

definition write_structured :: "filesystem \<Rightarrow> string \<Rightarrow> pyval \<Rightarrow> (exn + unit) \<times> filesystem" where
  "write_structured fs filepath data =
     (if \<not> can_open_w fs filepath then (Inl (open_error filepath), fs)
      else case data of
             PDict d \<Rightarrow>
               if has_key d ''html_content''
               then (case dict_get d ''html_content'' of
                       PStr markup \<Rightarrow> (Inr (), write_file fs filepath (Markup markup))
                     | other \<Rightarrow>
                         (Inl (TypeError ''write() argument must be str''),
                          write_file fs filepath (Markup [])))
               else (case json_fault data of
                       None \<Rightarrow> (Inr (), write_file fs filepath (JsonText data))
                     | Some t \<Rightarrow> (Inl (json_error t), write_file fs filepath (PartialJson data)))
           | other \<Rightarrow>
               (case json_fault data of
                  None \<Rightarrow> (Inr (), write_file fs filepath (JsonText data))
                | Some t \<Rightarrow> (Inl (json_error t), write_file fs filepath (PartialJson data))))"

definition save_data_with_fallback ::
  "clock \<Rightarrow> page \<Rightarrow> filesystem \<Rightarrow> pyval \<Rightarrow> string \<Rightarrow> (exn + string option) \<times> filesystem" where
  "save_data_with_fallback clk pg fs data filename =
     (let filepath = os_path_join output_dir filename
      in case write_structured fs filepath data of
           (Inr u, fs1) \<Rightarrow> (Inr (Some filepath), fs1)
         | (Inl e, fs1) \<Rightarrow>
             if \<not> is_serialization_error e then (Inl e, fs1)
             else (case content pg of
                     Inl driver_failure \<Rightarrow> (Inl driver_failure, fs1)
                   | Inr markup \<Rightarrow>
                       (let saved = save_html_fallback clk pg fs1 markup
                                      (''save_fail_'' @ remove_all ''.json'' filename) ''save_error'';
                            html_file = fst saved;
                            fs2 = snd saved;
                            error_data =
                              PDict [(''filename'', PStr filename),
                                     (''error'', PStr (exn_message e)),
                                     (''timestamp'', PStr (iso clk)),
                                     (''html_fallback_file'', string_or_none html_file)];
                            error_file = output_dir @ ''/errors/save_error_''
                                           @ remove_all ''.json'' filename @ ''.json''
                        in if can_open_w fs2 error_file
                           then (Inr html_file, write_file fs2 error_file (JsonText error_data))
                           else (Inl (open_error error_file), fs2))))"

section \<open>Field extraction\<close>

subsection \<open>Direct-locator tier\<close>

text \<open>
  \<open>get_element_text\<close>: the lookup and the read are inside \<open>try\<close> with a bare
  \<open>except\<close>, after which the function returns the empty string.
\<close>

definition lookup_text :: "page \<Rightarrow> string \<Rightarrow> exn + string" where
  "lookup_text pg selector =
     bind_exn (query_selector pg selector)
       (\<lambda>found. case found of
                   None \<Rightarrow> Inr []
                 | Some element \<Rightarrow> bind_exn (text_content element) (\<lambda>t. Inr (py_strip t)))"

definition get_element_text :: "page \<Rightarrow> string \<Rightarrow> exn + string" where
  "get_element_text pg selector =
     (case lookup_text pg selector of Inl e \<Rightarrow> Inr [] | Inr t \<Rightarrow> Inr t)"

fun py_join :: "string \<Rightarrow> string list \<Rightarrow> string" where
  "py_join sep [] = []"
| "py_join sep [x] = x"
| "py_join sep (x # y # ys) = x @ sep @ py_join sep (y # ys)"

text \<open>
  \<open>extract_office_address\<close>: both branches do the same with their own four locators.
  \<open>compose_address\<close> is what they build from the four texts: the address line, then the
  line \<open>city, state zip\<close> with blanks and commas stripped from its ends, joined by
  \<open>" | "\<close>, an empty part left out. An exception in the body is caught and gives the
  empty string.
\<close>

definition compose_address :: "string \<Rightarrow> string \<Rightarrow> string \<Rightarrow> string \<Rightarrow> string" where
  "compose_address address1 city state zip_code =
     (let parts1 = (if address1 \<noteq> [] then [address1] else []);
          parts2 = (if city \<noteq> [] \<or> state \<noteq> [] \<or> zip_code \<noteq> []
                    then (let location = strip_chars '' ,''
                                           (city @ '', '' @ state @ '' '' @ zip_code)
                          in if location \<noteq> [] then [location] else [])
                    else []);
          address_parts = parts1 @ parts2
      in if address_parts \<noteq> [] then py_join '' | '' address_parts else [])"

definition address_from ::
  "page \<Rightarrow> string \<Rightarrow> string \<Rightarrow> string \<Rightarrow> string \<Rightarrow> exn + string" where
  "address_from pg sel_address sel_city sel_state sel_zip =
     bind_exn (get_element_text pg sel_address) (\<lambda>address1.
     bind_exn (get_element_text pg sel_city) (\<lambda>city.
     bind_exn (get_element_text pg sel_state) (\<lambda>state.
     bind_exn (get_element_text pg sel_zip) (\<lambda>zip_code.
       Inr (compose_address address1 city state zip_code)))))"

definition extract_office_address :: "page \<Rightarrow> string \<Rightarrow> exn + string" where
  "extract_office_address pg office_type =
     (case (if office_type = ''principal''
            then address_from pg ''#MainContent_lblPOAddress'' ''#MainContent_lblPOAddressCity''
                   ''#MainContent_lblPOAddressState'' ''#MainContent_lblPOAddressZip''
            else address_from pg ''#MainContent_lblROAddress'' ''#MainContent_lblROAddressCity''
                   ''#MainContent_lblROAddressState'' ''#MainContent_lblROAddressZip'')
      of Inl e \<Rightarrow> Inr [] | Inr a \<Rightarrow> Inr a)"

text \<open>The ten assignments of \<open>extract_by_element_ids\<close>, in order: key and locator.\<close>

definition field_locators :: "(string \<times> string) list" where
  "field_locators =
     [(''business_id'', ''#MainContent_lblEntityID''),
      (''business_name'', ''#MainContent_lblEntityName''),
      (''type'', ''#MainContent_lblEntityType''),
      (''formation_date'', ''#MainContent_lblFormationDate''),
      (''jurisdiction'', ''#MainContent_lblStateOfOrganization''),
      (''status'', ''#MainContent_lblEntityStatus''),
      (''resident_agent'', ''#MainContent_lblResidentAgentName''),
      (''last_reporting_year'', ''#MainContent_lblLastIROnFile''),
      (''next_report_due_date'', ''#MainContent_lblNextIRDue''),
      (''forfeiture_date'', ''#MainContent_lblForfeitureDate'')]"

fun assign_fields :: "page \<Rightarrow> (string \<times> string) list \<Rightarrow> pydict \<Rightarrow> exn + pydict" where
  "assign_fields pg [] business_data = Inr business_data"
| "assign_fields pg (kl # rest) business_data =
     bind_exn (get_element_text pg (snd kl))
       (\<lambda>t. assign_fields pg rest (dict_set business_data (fst kl) (PStr t)))"

definition extract_by_element_ids :: "page \<Rightarrow> exn + pydict" where
  "extract_by_element_ids pg =
     bind_exn (assign_fields pg field_locators []) (\<lambda>d10.
     bind_exn (extract_office_address pg ''principal'') (\<lambda>principal.
     bind_exn (extract_office_address pg ''registered'') (\<lambda>registered.
       Inr (dict_set (dict_set d10 ''principal_office_address'' (PStr principal))
              ''registered_office_address'' (PStr registered)))))"

subsection \<open>Table-scan tier\<close>

text \<open>The \<open>if\<close>/\<open>elif\<close> chain on the lower-cased label, in the source's order.\<close>

definition classify_label :: "string \<Rightarrow> string option" where
  "classify_label label_lower =
     (if py_in ''business id'' label_lower \<or> py_in ''entity id'' label_lower
        then Some ''business_id''
      else if py_in ''business name'' label_lower \<or> py_in ''entity name'' label_lower
        then Some ''business_name''
      else if py_in ''entity type'' label_lower \<or> py_in ''type'' label_lower
        then Some ''type''
      else if py_in ''formation date'' label_lower then Some ''formation_date''
      else if py_in ''jurisdiction'' label_lower then Some ''jurisdiction''
      else if py_in ''status'' label_lower then Some ''status''
      else if py_in ''resident agent'' label_lower then Some ''resident_agent''
      else if py_in ''last report'' label_lower then Some ''last_reporting_year''
      else if py_in ''next report'' label_lower then Some ''next_report_due_date''
      else if py_in ''forfeiture'' label_lower then Some ''forfeiture_date''
      else None)"

text \<open>
  The body of the inner loop for one row. Reading the cells or their text may raise;
  the assignment \<open>table_data[key] = value\<close> is unconditional.
\<close>

definition scan_row :: "row \<Rightarrow> pydict \<Rightarrow> exn + pydict" where
  "scan_row r table_data =
     bind_exn (row_cells r) (\<lambda>cells.
       if length cells \<ge> 2
       then bind_exn (cell_text (cells ! 0)) (\<lambda>text0.
            bind_exn (cell_text (cells ! 1)) (\<lambda>text1.
              (let label = py_strip text0; val = py_strip text1
               in if label \<noteq> [] \<and> val \<noteq> []
                  then (case classify_label (py_lower label) of
                          Some key \<Rightarrow> Inr (dict_set table_data key (PStr val))
                        | None \<Rightarrow> Inr table_data)
                  else Inr table_data)))
       else Inr table_data)"

text \<open>
  The two loops. One \<open>try\<close> encloses both, so the first exception ends the scan; the
  handler returns \<open>table_data\<close> as filled so far. The loops therefore return the
  dictionary together with the exception that stopped them, if any.
\<close>

fun scan_rows :: "row list \<Rightarrow> pydict \<Rightarrow> pydict \<times> exn option" where
  "scan_rows [] table_data = (table_data, None)"
| "scan_rows (r # rs) table_data =
     (case scan_row r table_data of
        Inl e \<Rightarrow> (table_data, Some e)
      | Inr table_data' \<Rightarrow> scan_rows rs table_data')"

fun scan_tables :: "table list \<Rightarrow> pydict \<Rightarrow> pydict \<times> exn option" where
  "scan_tables [] table_data = (table_data, None)"
| "scan_tables (t # ts) table_data =
     (case t of
        Inl e \<Rightarrow> (table_data, Some e)
      | Inr rows \<Rightarrow>
          (case scan_rows rows table_data of
             (table_data', Some e) \<Rightarrow> (table_data', Some e)
           | (table_data', None) \<Rightarrow> scan_tables ts table_data'))"

definition extract_from_tables :: "page \<Rightarrow> exn + pydict" where
  "extract_from_tables pg =
     (case tables pg of
        Inl e \<Rightarrow> Inr []
      | Inr ts \<Rightarrow> Inr (fst (scan_tables ts [])))"

subsection \<open>Text-pattern tier\<close>

text \<open>
  Every pattern of \<open>extract_from_page_text\<close> has the shape \<open>L[^>]*>([^<]+)\<close> for a
  literal \<open>L\<close>, searched with \<open>re.IGNORECASE\<close>. At a given position it matches when the
  text continues with \<open>L\<close> in any case, a \<open>>\<close> follows (the first one: \<open>[^>]*\<close> cannot
  pass a \<open>>\<close>), and the character after that \<open>>\<close> is not \<open><\<close>; group 1 is the
  longest run without \<open><\<close> from there. \<open>re.search\<close> returns the leftmost match.
\<close>

definition match_at :: "string \<Rightarrow> string \<Rightarrow> string option" where
  "match_at literal s =
     (if length literal \<le> length s \<and> py_lower (take (length literal) s) = py_lower literal
      then (case dropWhile (\<lambda>c. c \<noteq> CHR ''>'') (drop (length literal) s) of
              [] \<Rightarrow> None
            | gt # after \<Rightarrow>
                (let group1 = takeWhile (\<lambda>c. c \<noteq> CHR ''<'') after
                 in if group1 = [] then None else Some group1))
      else None)"

fun re_search :: "string \<Rightarrow> string \<Rightarrow> string option" where
  "re_search literal [] = match_at literal []"
| "re_search literal (c # cs) =
     (case match_at literal (c # cs) of
        Some group1 \<Rightarrow> Some group1
      | None \<Rightarrow> re_search literal cs)"

definition patterns :: "(string \<times> string list) list" where
  "patterns =
     [(''business_id'', [''Business ID'', ''Entity ID'']),
      (''business_name'', [''Business Name'', ''Entity Name'']),
      (''type'', [''Entity Type'', ''Type'']),
      (''formation_date'', [''Formation Date'']),
      (''jurisdiction'', [''Jurisdiction'']),
      (''status'', [''Status'']),
      (''resident_agent'', [''Resident Agent'']),
      (''last_reporting_year'', [''Last Report'']),
      (''next_report_due_date'', [''Next Report'']),
      (''forfeiture_date'', [''Forfeiture Date''])]"

text \<open>The inner loop: the first pattern that matches gives the value, then \<open>break\<close>.\<close>

fun first_match :: "string list \<Rightarrow> string \<Rightarrow> string option" where
  "first_match [] page_text = None"
| "first_match (literal # others) page_text =
     (case re_search literal page_text of
        Some group1 \<Rightarrow> Some group1
      | None \<Rightarrow> first_match others page_text)"

fun search_fields :: "(string \<times> string list) list \<Rightarrow> string \<Rightarrow> pydict \<Rightarrow> pydict" where
  "search_fields [] page_text text_data = text_data"
| "search_fields (fp # rest) page_text text_data =
     (case first_match (snd fp) page_text of
        Some group1 \<Rightarrow>
          search_fields rest page_text (dict_set text_data (fst fp) (PStr (py_strip group1)))
      | None \<Rightarrow> search_fields rest page_text text_data)"

definition extract_from_page_text :: "page \<Rightarrow> exn + pydict" where
  "extract_from_page_text pg =
     (case content pg of
        Inl e \<Rightarrow> Inr []
      | Inr page_text \<Rightarrow> Inr (search_fields patterns page_text []))"

subsection \<open>The three tiers in order, and the validation step\<close>

datatype tier = DirectLocator | TableScan | TextPattern

text \<open>
  The first lines of \<open>extract_business_details_robust\<close>: the tiers that were called, in
  order, and the mapping the last of them returned.
\<close>

definition run_tiers :: "page \<Rightarrow> exn + tier list \<times> pydict" where
  "run_tiers pg =
     bind_exn (extract_by_element_ids pg) (\<lambda>data1.
     bind_exn (if \<not> truthy (dict_get data1 ''business_name'')
               then bind_exn (extract_from_tables pg)
                      (\<lambda>data2. Inr ([DirectLocator, TableScan], data2))
               else Inr ([DirectLocator], data1)) (\<lambda>after2.
     if \<not> truthy (dict_get (snd after2) ''business_name'')
     then bind_exn (extract_from_page_text pg)
            (\<lambda>data3. Inr (fst after2 @ [TextPattern], data3))
     else Inr after2))"

text \<open>
  \<open>extract_business_details_robust\<close>. \<open>robust_attempt\<close> is its \<open>try\<close> block; the
  handler reads the page markup for the error log outside any \<open>try\<close>.
\<close>

definition robust_attempt ::
  "(pyval \<Rightarrow> string) \<Rightarrow> clock \<Rightarrow> page \<Rightarrow> filesystem \<Rightarrow> string
     \<Rightarrow> (exn + pyval) \<times> filesystem" where
  "robust_attempt render clk pg fs search_term =
     (case run_tiers pg of
        Inl e \<Rightarrow> (Inl e, fs)
      | Inr tiers_and_data \<Rightarrow>
          (let business_data = snd tiers_and_data
           in if truthy (dict_get business_data ''business_name'')
                 \<and> truthy (dict_get business_data ''business_id'')
              then (case safe_extract_json_data render clk pg fs
                           (PDict business_data) search_term of
                      (Inl e, fs1) \<Rightarrow> (Inl e, fs1)
                    | (Inr safe, fs1) \<Rightarrow> (Inr (fst safe), fs1))
              else (case content pg of
                      Inl e \<Rightarrow> (Inl e, fs)
                    | Inr html_content \<Rightarrow>
                        (let error_data =
                               PDict [(''html_content'', PStr html_content),
                                      (''error'', PStr ''Essential data missing''),
                                      (''timestamp'', PStr (iso clk)),
                                      (''search_term'', PStr search_term),
                                      (''status'', PStr ''data_extraction_failed'')]
                         in case safe_extract_json_data render clk pg fs
                                   error_data search_term of
                              (Inl e, fs1) \<Rightarrow> (Inl e, fs1)
                            | (Inr safe, fs1) \<Rightarrow> (Inr (fst safe), fs1)))))"

definition extract_business_details_robust ::
  "(pyval \<Rightarrow> string) \<Rightarrow> clock \<Rightarrow> page \<Rightarrow> filesystem \<Rightarrow> string
     \<Rightarrow> (exn + pyval) \<times> filesystem" where
  "extract_business_details_robust render clk pg fs search_term =
     (case robust_attempt render clk pg fs search_term of
        (Inr safe_data, fs1) \<Rightarrow> (Inr safe_data, fs1)
      | (Inl e, fs1) \<Rightarrow>
          (case content pg of
             Inl driver_failure \<Rightarrow> (Inl driver_failure, fs1)
           | Inr markup \<Rightarrow>
               (let fs2 = snd (save_error_log clk pg fs1 search_term
                                 (''Extraction error: '' @ exn_message e) (Some markup))
                in (Inr (PDict [(''error'', PStr (exn_message e)),
                                (''timestamp'', PStr (iso clk)),
                                (''search_term'', PStr search_term),
                                (''status'', PStr ''extraction_error'')]),
                    fs2))))"

section \<open>Concrete pages and records\<close>

definition label_element :: "string \<Rightarrow> exn + element option" where
  "label_element t =
     Inr (Some \<lparr>text_content = Inr t, is_checked = Inl (DriverError ''not a checkbox'')\<rparr>)"

definition text_cell :: "string \<Rightarrow> cell" where
  "text_cell t = \<lparr>is_th = False, cell_text = Inr t\<rparr>"

definition text_row :: "string \<Rightarrow> string \<Rightarrow> row" where
  "text_row l v = \<lparr>row_cells = Inr [text_cell l, text_cell v], select_button = Inr False\<rparr>"

definition detached_row :: row where
  "detached_row =
     \<lparr>row_cells = Inl (DriverError ''element is not attached to the DOM''),
      select_button = Inr False\<rparr>"

text \<open>
  A detail page whose form is rendered but not filled: the entity-number label is there,
  with no text, and there is no name label, no table and no text after any tag.
\<close>

definition empty_form_markup :: string where
  "empty_form_markup = ''<html><body><span id=MainContent_lblEntityID></span></body></html>''"

definition empty_form_page :: page where
  "empty_form_page =
     \<lparr>page_url = ''https://www.sos.ks.gov/eforms/BusinessEntity/Details.aspx'',
      page_title = Inr ''Business Entity Search'',
      content = Inr empty_form_markup,
      selectors = [(''#MainContent_lblEntityID'', label_element [])],
      tables = Inr [],
      results_table = Inr None\<rparr>"

text \<open>
  Markup in which every \<open>>\<close> is followed by \<open><\<close> or ends the text: no pattern
  of the text tier can match it.
\<close>

fun bare_markup :: "string \<Rightarrow> bool" where
  "bare_markup [] = True"
| "bare_markup [c] = True"
| "bare_markup (c # d # cs) =
     (if c = CHR ''>'' then d = CHR ''<'' \<and> bare_markup (d # cs) else bare_markup (d # cs))"

text \<open>A detail page that the direct-locator tier reads in full.\<close>

definition acme_page :: page where
  "acme_page =
     \<lparr>page_url = ''https://www.sos.ks.gov/eforms/BusinessEntity/Details.aspx'',
      page_title = Inr ''Business Entity Search'',
      content = Inr (''<html><body><span id=MainContent_lblEntityID>1234567</span>''
                     @ ''<span id=MainContent_lblEntityName> ACME LLC </span></body></html>''),
      selectors = [(''#MainContent_lblEntityID'', label_element ''1234567''),
                   (''#MainContent_lblEntityName'', label_element '' ACME LLC '')],
      tables = Inr [],
      results_table = Inr None\<rparr>"

text \<open>The ten keys that the table-scan tier and the text-pattern tier can set.\<close>

definition attribute_keys :: "string list" where
  "attribute_keys =
     [''business_id'', ''business_name'', ''type'', ''formation_date'', ''jurisdiction'',
      ''status'', ''resident_agent'', ''last_reporting_year'', ''next_report_due_date'',
      ''forfeiture_date'']"

text \<open>
  A detail page without a name label, where the first tier still reads the entity type,
  and with a table that holds the name and the number.
\<close>

definition table_page :: page where
  "table_page =
     \<lparr>page_url = ''https://www.sos.ks.gov/eforms/BusinessEntity/Details.aspx'',
      page_title = Inr ''Business Entity Search'',
      content = Inr ''<html><body></body></html>'',
      selectors = [(''#MainContent_lblEntityType'', label_element ''LLC'')],
      tables = Inr [Inr [text_row ''Entity Name'' ''Acme LLC'', text_row ''Entity ID'' ''123'']],
      results_table = Inr None\<rparr>"

text \<open>The keys that validation and the error records add to a mapping.\<close>

definition record_keys :: "string list" where
  "record_keys =
     [''search_term'', ''extracted_at'', ''status'', ''html_content'', ''error'', ''timestamp'',
      ''error_type'', ''error_message'', ''scraped_at'', ''html_fallback_file'',
      ''partial_business_data'']"

text \<open>A clock reading for the concrete runs.\<close>

definition noon :: clock where
  "noon = \<lparr>stamp = ''20240101_120000'', iso = ''2024-01-01T12:00:00'', hms = ''120000''\<rparr>"

text \<open>
  A detail page that is re-rendered while it is read: the name label and the city of the
  principal office time out, the second table row is detached, and the markup cannot be
  fetched.
\<close>

definition flaky_page :: page where
  "flaky_page =
     \<lparr>page_url = ''https://www.sos.ks.gov/eforms/BusinessEntity/Details.aspx'',
      page_title = Inr ''Business Entity Search'',
      content = Inl (DriverError ''page is navigating''),
      selectors = [(''#MainContent_lblEntityID'', label_element ''123''),
                   (''#MainContent_lblEntityName'', Inl (DriverError ''Timeout 30000ms exceeded'')),
                   (''#MainContent_lblPOAddress'', label_element ''100 Main St''),
                   (''#MainContent_lblPOAddressCity'',
                      Inl (DriverError ''Timeout 30000ms exceeded'')),
                   (''#MainContent_lblPOAddressState'', label_element ''KS''),
                   (''#MainContent_lblPOAddressZip'', label_element ''66101'')],
      tables = Inr [Inr [text_row ''Entity ID'' ''123'', detached_row,
                         text_row ''Entity Name'' ''Acme LLC'']],
      results_table = Inr None\<rparr>"

subsection \<open>What the table scan assigns\<close>

text \<open>
  What one row assigns when it can be read: the key its label selects in the
  \<open>if\<close>/\<open>elif\<close> chain, and the stripped value.
\<close>

definition row_assignment :: "row \<Rightarrow> (string \<times> string) option" where
  "row_assignment r =
     (case row_cells r of
        Inl e \<Rightarrow> None
      | Inr cells \<Rightarrow>
          if length cells \<ge> 2
          then (case cell_text (cells ! 0) of
                  Inl e \<Rightarrow> None
                | Inr text0 \<Rightarrow>
                    (case cell_text (cells ! 1) of
                       Inl e \<Rightarrow> None
                     | Inr text1 \<Rightarrow>
                         if py_strip text0 \<noteq> [] \<and> py_strip text1 \<noteq> []
                         then (case classify_label (py_lower (py_strip text0)) of
                                 Some key \<Rightarrow> Some (key, py_strip text1)
                               | None \<Rightarrow> None)
                         else None))
          else None)"










subsection \<open>Paths and records of the evidence store\<close>

text \<open>The paths that \<open>safe_extract_json_data\<close> and \<open>save_data_with_fallback\<close> build.\<close>

definition validation_evidence_path :: "clock \<Rightarrow> string \<Rightarrow> string" where
  "validation_evidence_path clk search_term =
     fallback_path clk (''json_fail_'' @ search_term) ''serialization_error''"

definition save_evidence_path :: "clock \<Rightarrow> string \<Rightarrow> string" where
  "save_evidence_path clk filename =
     fallback_path clk (''save_fail_'' @ remove_all ''.json'' filename) ''save_error''"

definition save_error_path :: "string \<Rightarrow> string" where
  "save_error_path filename =
     output_dir @ ''/errors/save_error_'' @ remove_all ''.json'' filename @ ''.json''"

definition is_markup_record :: "pyval \<Rightarrow> bool" where
  "is_markup_record data = (case data of PDict d \<Rightarrow> has_key d ''html_content'' | other \<Rightarrow> False)"

text \<open>The name of a per-entity artifact, lines 701 to 706 of the coordinator.\<close>

definition artifact_filename :: "clock \<Rightarrow> pydict \<Rightarrow> string \<Rightarrow> exn + string" where
  "artifact_filename clk details search_term =
     (if has_key details ''business_name'' \<and> truthy (dict_get details ''business_name'')
      then (case dict_get details ''business_name'' of
              PStr business_name \<Rightarrow> Inr (''json/business_'' @ clean_name business_name @ ''.json'')
            | other \<Rightarrow> Inl (TypeError ''expected string or bytes-like object''))
      else Inr (''json/'' @ (''error_'' @ search_term @ ''_'' @ hms clk) @ ''.json''))"

text \<open>A record with a value that the \<open>json\<close> module cannot write.\<close>

definition unserializable_record :: pyval where
  "unserializable_record =
     PDict [(''business_name'', PStr ''Acme LLC''), (''business_id'', PStr ''123''),
            (''logo'', PObj ''bytes'' True)]"

text \<open>A rendering of values that is longer than the preview allows.\<close>

definition long_render :: "pyval \<Rightarrow> string" where
  "long_render v = replicate 600 (CHR ''x'')"

text \<open>Two records of different entities, read at different times.\<close>

definition evening :: clock where
  "evening = \<lparr>stamp = ''20240101_200000'', iso = ''2024-01-01T20:00:00'', hms = ''200000''\<rparr>"

definition first_acme :: pydict where
  "first_acme = [(''business_id'', PStr ''111''), (''business_name'', PStr ''Acme LLC''),
                 (''status'', PStr ''success'')]"

definition second_acme :: pydict where
  "second_acme = [(''business_id'', PStr ''222''), (''business_name'', PStr ''Acme,LLC''),
                  (''status'', PStr ''success'')]"

section \<open>The crawl coordinator\<close>

text \<open>
  The browser, the clock and the operator are outside the program. A scene is what they
  show at one moment: the rendered page, the clock reading, and the exception that a
  driver action performed now would raise, if any. The world holds the scene of the
  moment and the scenes still to come, one for each action or delay of the run; it also
  holds the file system, the banner lines printed on the console, and the list
  \<open>all_business_data\<close> of the coordinator. Every driver action (\<open>goto\<close>,
  \<open>click\<close>, \<open>fill\<close>, \<open>go_back\<close>), the operator prompt \<open>input\<close> and every
  \<open>time.sleep\<close> moves to the next scene; reads do not. The log file of the \<open>logging\<close>
  module is left out.
\<close>

record scene =
  view :: page
  now :: clock
  action_error :: "exn option"

record world =
  current :: scene
  upcoming :: "scene list"
  disk :: filesystem
  console :: "string list"
  collected :: "pyval list"

definition advance :: "world \<Rightarrow> world" where
  "advance w =
     (case upcoming w of [] \<Rightarrow> w | s # rest \<Rightarrow> w\<lparr>current := s, upcoming := rest\<rparr>)"

definition sleep :: "world \<Rightarrow> world" where
  "sleep w = advance w"

definition act :: "world \<Rightarrow> (exn + unit) \<times> world" where
  "act w =
     (case action_error (current w) of
        None \<Rightarrow> (Inr (), advance w)
      | Some e \<Rightarrow> (Inl e, advance w))"

definition page_now :: "world \<Rightarrow> page" where
  "page_now w = view (current w)"

definition clock_now :: "world \<Rightarrow> clock" where
  "clock_now w = now (current w)"

text \<open>Sequencing of steps that may raise, a read inside such a sequence, and \<open>try\<close>.\<close>

definition then_step ::
  "(exn + 'a) \<times> world \<Rightarrow> ('a \<Rightarrow> world \<Rightarrow> (exn + 'b) \<times> world) \<Rightarrow> (exn + 'b) \<times> world" where
  "then_step r f = (case r of (Inl e, w) \<Rightarrow> (Inl e, w) | (Inr x, w) \<Rightarrow> f x w)"

definition reading :: "exn + 'a \<Rightarrow> world \<Rightarrow> (exn + 'a) \<times> world" where
  "reading r w = (r, w)"

definition catch ::
  "(exn + 'a) \<times> world \<Rightarrow> (exn \<Rightarrow> world \<Rightarrow> (exn + 'a) \<times> world) \<Rightarrow> (exn + 'a) \<times> world" where
  "catch r handler = (case r of (Inl e, w) \<Rightarrow> handler e w | (Inr x, w) \<Rightarrow> (Inr x, w))"

text \<open>
  \<open>self.save_error_log(search_term, message, self.page.content())\<close>: the argument is
  evaluated first and may raise; the call itself never does.
\<close>

definition log_with_markup :: "world \<Rightarrow> string \<Rightarrow> string \<Rightarrow> (exn + unit) \<times> world" where
  "log_with_markup w search_term message =
     (case content (page_now w) of
        Inl e \<Rightarrow> (Inl e, w)
      | Inr markup \<Rightarrow>
          (Inr (), w\<lparr>disk := snd (save_error_log (clock_now w) (page_now w) (disk w)
                                      search_term message (Some markup))\<rparr>))"

subsection \<open>Human verification\<close>

definition captcha_indicators :: "string list" where
  "captcha_indicators =
     [''.g-recaptcha'', ''iframe[src*='recaptcha']'', ''text=CAPTCHA'', ''text=recaptcha'',
      ''text=verify you are human'']"

fun find_indicator :: "page \<Rightarrow> string list \<Rightarrow> exn + bool" where
  "find_indicator pg [] = Inr False"
| "find_indicator pg (indicator # rest) =
     (case query_selector pg indicator of
        Inl e \<Rightarrow> Inl e
      | Inr (Some element) \<Rightarrow> Inr True
      | Inr None \<Rightarrow> find_indicator pg rest)"

definition check_and_solve_captcha :: "world \<Rightarrow> (exn + bool) \<times> world" where
  "check_and_solve_captcha w0 =
     (let w1 = sleep w0
      in then_step (reading (find_indicator (page_now w1) captcha_indicators) w1)
           (\<lambda>has_captcha w2.
              if has_captcha
              then then_step (act w2) (\<lambda>u w3. (Inr True, sleep w3))
              else (Inr False, w2)))"

subsection \<open>Navigation bootstrap\<close>

definition navigate_to_homepage_first :: "world \<Rightarrow> bool \<times> world" where
  "navigate_to_homepage_first w0 =
     (case then_step (act w0) (\<lambda>u w1.
           then_step (reading (page_title (page_now (sleep w1))) (sleep w1)) (\<lambda>title w2.
           then_step (check_and_solve_captcha w2) (\<lambda>c w3.
           then_step (act w3) (\<lambda>u w4.
           then_step (check_and_solve_captcha (sleep w4)) (\<lambda>c w5.
           then_step (reading (page_title (page_now w5)) w5) (\<lambda>title w6.
             (Inr True, w6)))))))
      of (Inr reached, w) \<Rightarrow> (reached, w)
       | (Inl e, w) \<Rightarrow>
           (case then_step (act w) (\<lambda>u w1.
                 then_step (check_and_solve_captcha (sleep w1)) (\<lambda>c w2. (Inr True, w2)))
            of (Inr reached, w') \<Rightarrow> (reached, w')
             | (Inl fallback_error, w') \<Rightarrow> (False, w')))"

subsection \<open>Search setup and submission\<close>

definition select_radio :: "string \<Rightarrow> world \<Rightarrow> (exn + unit) \<times> world" where
  "select_radio selector w =
     then_step (reading (query_selector (page_now w) selector) w) (\<lambda>found w1.
       case found of
         None \<Rightarrow> (Inr (), w1)
       | Some radio \<Rightarrow>
           then_step (reading (is_checked radio) w1) (\<lambda>checked w2.
             if \<not> checked then then_step (act w2) (\<lambda>u w3. (Inr (), sleep w3))
             else (Inr (), w2)))"

definition automated_search_setup :: "string \<Rightarrow> world \<Rightarrow> (exn + bool) \<times> world" where
  "automated_search_setup search_term w0 =
     catch
       (then_step (select_radio ''#MainContent_rblSearchType_0'' (sleep w0)) (\<lambda>u w1.
        then_step (select_radio ''#MainContent_rblNameSearchType_0'' w1) (\<lambda>u w2.
        then_step (reading (query_selector (page_now w2) ''#MainContent_txtSearchEntityName'') w2)
          (\<lambda>search_input w3.
             case search_input of
               Some element \<Rightarrow>
                 then_step (act w3) (\<lambda>u w4.
                 then_step (act w4) (\<lambda>u w5. (Inr True, sleep w5)))
             | None \<Rightarrow>
                 then_step (log_with_markup w3 search_term ''Search input not found'')
                   (\<lambda>u w4. (Inr False, w4))))))
       (\<lambda>e w. then_step (log_with_markup w search_term
                             (''Search setup error: '' @ exn_message e))
                  (\<lambda>u w'. (Inr False, w')))"

definition perform_search :: "string \<Rightarrow> world \<Rightarrow> (exn + bool) \<times> world" where
  "perform_search search_term w0 =
     catch
       (then_step (check_and_solve_captcha w0) (\<lambda>c w1.
        then_step (reading (query_selector (page_now w1) ''#MainContent_btnSearchEntity'') w1)
          (\<lambda>search_btn w2.
             case search_btn of
               Some element \<Rightarrow>
                 then_step (act w2) (\<lambda>u w3.
                 then_step (check_and_solve_captcha (sleep w3)) (\<lambda>c w4. (Inr True, w4)))
             | None \<Rightarrow>
                 then_step (log_with_markup w2 search_term ''Search button not found'')
                   (\<lambda>u w3. (Inr False, w3)))))
       (\<lambda>e w. then_step (log_with_markup w search_term (''Search failed: '' @ exn_message e))
                  (\<lambda>u w'. (Inr False, w')))"

subsection \<open>Result list\<close>

record business_info =
  info_name :: string
  info_id :: string
  row_index :: nat

text \<open>
  The body of the loop over the result rows, inside its own \<open>try\<close>: a row that cannot
  be read is skipped. \<open>row.query_selector_all("td")\<close> leaves the header cells out.
\<close>

definition link_of_row :: "nat \<Rightarrow> row \<Rightarrow> business_info option" where
  "link_of_row i r =
     (case row_cells r of
        Inl e \<Rightarrow> None
      | Inr all_cells \<Rightarrow>
          (let cells = filter (\<lambda>c. \<not> is_th c) all_cells
           in if length cells \<ge> 3
              then (case cell_text (cells ! 0) of
                      Inl e \<Rightarrow> None
                    | Inr text0 \<Rightarrow>
                        (case cell_text (cells ! 1) of
                           Inl e \<Rightarrow> None
                         | Inr text1 \<Rightarrow>
                             (let business_id = py_strip text0; business_name = py_strip text1
                              in if business_name \<noteq> [] \<and> length business_name > 1
                                 then Some \<lparr>info_name = business_name, info_id = business_id,
                                            row_index = i\<rparr>
                                 else None)))
              else None))"

fun links_from :: "nat \<Rightarrow> row list \<Rightarrow> business_info list" where
  "links_from i [] = []"
| "links_from i (r # rs) =
     (case link_of_row i r of
        Some business \<Rightarrow> business # links_from (Suc i) rs
      | None \<Rightarrow> links_from (Suc i) rs)"

definition extract_business_links_from_results ::
  "string \<Rightarrow> world \<Rightarrow> (exn + business_info list) \<times> world" where
  "extract_business_links_from_results search_term w0 =
     catch
       (then_step (reading (results_table (page_now (sleep w0))) (sleep w0)) (\<lambda>found w1.
          case found of
            None \<Rightarrow> (Inr [], w1)
          | Some tbl \<Rightarrow>
              then_step (reading tbl w1) (\<lambda>rows w2.
                (Inr (links_from 1 (drop 1 rows)), w2))))
       (\<lambda>e w. then_step (log_with_markup w search_term
                             (''Business links extraction error: '' @ exn_message e))
                  (\<lambda>u w'. (Inr [], w')))"

subsection \<open>Opening a detail page and coming back\<close>

definition click_business_by_index ::
  "business_info \<Rightarrow> string \<Rightarrow> world \<Rightarrow> (exn + bool) \<times> world" where
  "click_business_by_index business search_term w0 =
     catch
       (then_step (reading (results_table (page_now w0)) w0) (\<lambda>found w1.
          case found of
            None \<Rightarrow> (Inr False, w1)
          | Some tbl \<Rightarrow>
              then_step (reading tbl w1) (\<lambda>rows w2.
                if length rows > row_index business
                then then_step (reading (select_button (rows ! row_index business)) w2)
                       (\<lambda>button_found w3.
                          if button_found
                          then then_step (act w3) (\<lambda>u w4.
                               then_step (check_and_solve_captcha (sleep w4)) (\<lambda>c w5.
                               then_step (reading (query_selector (page_now w5)
                                                     ''#MainContent_lblEntityID'') w5)
                                 (\<lambda>business_id_element w6.
                                    case business_id_element of
                                      Some element \<Rightarrow> (Inr True, w6)
                                    | None \<Rightarrow>
                                        then_step (log_with_markup w6 search_term
                                                     (''Failed to reach detail page for ''
                                                        @ info_name business))
                                          (\<lambda>u w7. (Inr False, w7)))))
                          else then_step (log_with_markup w3 search_term
                                            (''Select button not found for ''
                                               @ info_name business))
                                 (\<lambda>u w4. (Inr False, w4)))
                else (Inr False, w2))))
       (\<lambda>e w. then_step (log_with_markup w search_term
                             (''Click business error for '' @ info_name business @ '': ''
                                @ exn_message e))
                  (\<lambda>u w'. (Inr False, w')))"

definition return_to_search_results :: "world \<Rightarrow> bool \<times> world" where
  "return_to_search_results w0 =
     (case then_step (reading (query_selector (page_now w0)
                                 ''#MainContent_btnReturnToSearchResults'') w0)
             (\<lambda>return_btn w1.
                case return_btn of
                  Some element \<Rightarrow> then_step (act w1) (\<lambda>u w2. (Inr True, sleep w2))
                | None \<Rightarrow> then_step (act w1) (\<lambda>u w2. (Inr True, sleep w2)))
      of (Inr done, w) \<Rightarrow> (done, w)
       | (Inl e, w) \<Rightarrow> (False, w))"

text \<open>The \<open>try\<close> around the way back to the search page: whatever happens is logged.\<close>

definition return_to_search_page :: "world \<Rightarrow> world" where
  "return_to_search_page w0 =
     snd (then_step (act w0) (\<lambda>u w1. check_and_solve_captcha (sleep w1)))"

subsection \<open>Detail extraction and persistence in the world\<close>

definition extract_details ::
  "(pyval \<Rightarrow> string) \<Rightarrow> string \<Rightarrow> world \<Rightarrow> (exn + pyval) \<times> world" where
  "extract_details render search_term w =
     (case extract_business_details_robust render (clock_now w) (page_now w) (disk w)
             search_term of
        (r, fs) \<Rightarrow> (r, w\<lparr>disk := fs\<rparr>))"

definition persist :: "pyval \<Rightarrow> string \<Rightarrow> world \<Rightarrow> (exn + string option) \<times> world" where
  "persist data filename w =
     (case save_data_with_fallback (clock_now w) (page_now w) (disk w) data filename of
        (r, fs) \<Rightarrow> (r, w\<lparr>disk := fs\<rparr>))"

subsection \<open>The loops of \<open>run_fully_automated_crawler\<close>\<close>

datatype flow = Continue | Break

text \<open>
  The body of the loop over the first three businesses of a term; \<open>i\<close> is the index
  from \<open>enumerate\<close> and \<open>n\<close> the length of \<open>businesses[:3]\<close>. Nothing here is inside a
  \<open>try\<close>.
\<close>

definition store_details :: "string \<Rightarrow> business_info \<Rightarrow> pyval \<Rightarrow> world \<Rightarrow> (exn + unit) \<times> world" where
  "store_details search_term business details w =
     (case details of
        PDict d \<Rightarrow>
          if truthy details
          then then_step (reading (artifact_filename (clock_now w) d search_term) w)
                 (\<lambda>filename w1.
                    then_step (persist details filename w1) (\<lambda>saved_file w2.
                      if dict_get d ''status'' = PStr ''success''
                      then (Inr (), w2\<lparr>collected := collected w2 @ [details]\<rparr>)
                      else (Inr (), w2)))
          else log_with_markup w search_term (''Invalid data for '' @ info_name business)
      | other \<Rightarrow> log_with_markup w search_term (''Invalid data for '' @ info_name business))"

definition process_business ::
  "(pyval \<Rightarrow> string) \<Rightarrow> string \<Rightarrow> nat \<Rightarrow> nat \<Rightarrow> business_info \<Rightarrow> world
     \<Rightarrow> (exn + flow) \<times> world" where
  "process_business render search_term i n business w0 =
     then_step (click_business_by_index business search_term w0) (\<lambda>clicked w1.
       if clicked
       then then_step (extract_details render search_term w1) (\<lambda>details w2.
            then_step (store_details search_term business details w2) (\<lambda>u w3.
              if i < n - 1
              then (case return_to_search_results w3 of
                      (True, w4) \<Rightarrow> (Inr Continue, w4)
                    | (False, w4) \<Rightarrow> (Inr Break, w4))
              else (Inr Continue, w3)))
       else (Inr Continue, w1))"

fun process_businesses ::
  "(pyval \<Rightarrow> string) \<Rightarrow> string \<Rightarrow> nat \<Rightarrow> nat \<Rightarrow> business_info list \<Rightarrow> world
     \<Rightarrow> (exn + unit) \<times> world" where
  "process_businesses render search_term i n [] w = (Inr (), w)"
| "process_businesses render search_term i n (business # rest) w =
     (case process_business render search_term i n business w of
        (Inl e, w') \<Rightarrow> (Inl e, w')
      | (Inr Break, w') \<Rightarrow> (Inr (), w')
      | (Inr Continue, w') \<Rightarrow> process_businesses render search_term (Suc i) n rest w')"

definition banner :: "string \<Rightarrow> string" where
  "banner search_term = ''AUTOMATED SEARCH: '' @ [CHR 0x27] @ search_term @ [CHR 0x27]"

text \<open>One pass of the loop over the search terms; \<open>last_term\<close> is \<open>search_terms[-1]\<close>.\<close>

definition process_term ::
  "(pyval \<Rightarrow> string) \<Rightarrow> string \<Rightarrow> string \<Rightarrow> world \<Rightarrow> (exn + unit) \<times> world" where
  "process_term render last_term search_term w0 =
     then_step (automated_search_setup search_term
                  (w0\<lparr>console := console w0 @ [banner search_term]\<rparr>)) (\<lambda>ready w1.
       if \<not> ready
       then log_with_markup w1 search_term ''Search setup failed''
       else then_step (perform_search search_term w1) (\<lambda>searched w2.
              if \<not> searched then (Inr (), w2)
              else then_step (extract_business_links_from_results search_term w2)
                     (\<lambda>businesses w3.
                        if businesses = [] then (Inr (), return_to_search_page w3)
                        else then_step (process_businesses render search_term 0
                                          (length (take 3 businesses)) (take 3 businesses) w3)
                               (\<lambda>u w4.
                                  if search_term \<noteq> last_term
                                  then (Inr (), return_to_search_page w4)
                                  else (Inr (), w4)))))"

fun crawl_terms ::
  "(pyval \<Rightarrow> string) \<Rightarrow> string \<Rightarrow> string list \<Rightarrow> world \<Rightarrow> (exn + unit) \<times> world" where
  "crawl_terms render last_term [] w = (Inr (), w)"
| "crawl_terms render last_term (search_term # rest) w =
     (case process_term render last_term search_term w of
        (Inl e, w') \<Rightarrow> (Inl e, w')
      | (Inr u, w') \<Rightarrow> crawl_terms render last_term rest w')"

definition search_terms :: "string list" where
  "search_terms = [''AA'', ''AAB'', ''AAC'', ''LLC'', ''INC'', ''CORP'', ''SERVICE'', ''KANSAS'']"

text \<open>
  The combined artifact is saved inside \<open>try\<close> with \<open>except Exception\<close>: whatever
  \<open>save_data_with_fallback\<close> raises is logged, and what it wrote stays.
\<close>

definition save_combined :: "world \<Rightarrow> world" where
  "save_combined w =
     (let combined_filename = ''all_businesses_'' @ stamp (clock_now w) @ ''.json'';
          combined_data =
            PDict [(''total_companies'', PInt (int (length (collected w)))),
                   (''search_terms_used'', PList (map PStr search_terms)),
                   (''extraction_date'', PStr (iso (clock_now w))),
                   (''companies'', PList (collected w))]
      in snd (persist combined_data combined_filename w))"

datatype outcome = Aborted | Completed

definition run_fully_automated_crawler ::
  "(pyval \<Rightarrow> string) \<Rightarrow> world \<Rightarrow> (exn + outcome) \<times> world" where
  "run_fully_automated_crawler render w0 =
     (case navigate_to_homepage_first w0 of
        (False, w1) \<Rightarrow> (Inr Aborted, w1)
      | (True, w1) \<Rightarrow>
          then_step (crawl_terms render (last search_terms) search_terms w1) (\<lambda>u w2.
            (Inr Completed, if collected w2 \<noteq> [] then save_combined w2 else w2)))"

subsection \<open>A browser that closes after the bootstrap\<close>

text \<open>
  A search page without any verification challenge, and the page of a browser that has
  been closed: every call on it raises.
\<close>

definition search_page :: page where
  "search_page =
     \<lparr>page_url = ''https://www.sos.ks.gov/eforms/BusinessEntity/Search.aspx'',
      page_title = Inr ''Business Entity Search'',
      content = Inr ''<html><body></body></html>'',
      selectors = [],
      tables = Inr [],
      results_table = Inr None\<rparr>"

definition closed_error :: exn where
  "closed_error = DriverError ''Target page, context or browser has been closed''"

definition closed_page :: page where
  "closed_page =
     \<lparr>page_url = ''about:blank'',
      page_title = Inl closed_error,
      content = Inl closed_error,
      selectors = [(''#MainContent_rblSearchType_0'', Inl closed_error)],
      tables = Inl closed_error,
      results_table = Inl closed_error\<rparr>"

definition calm_scene :: scene where
  "calm_scene = \<lparr>view = search_page, now = noon, action_error = None\<rparr>"

definition closed_scene :: scene where
  "closed_scene = \<lparr>view = closed_page, now = noon, action_error = Some closed_error\<rparr>"

text \<open>
  The six scenes that the bootstrap passes through are calm; during the first delay of the
  search setup the browser closes.
\<close>

definition closing_world :: world where
  "closing_world =
     \<lparr>current = calm_scene,
      upcoming = [calm_scene, calm_scene, calm_scene, calm_scene, calm_scene, calm_scene,
                  closed_scene],
      disk = fresh_fs,
      console = [],
      collected = []\<rparr>"

subsection \<open>Worlds in which the crawl cannot raise\<close>

text \<open>
  A scene is readable when the page markup can be fetched and the clock's time of day has
  no path separator. A world is steady when every scene, now and to come, is readable
  and the file system has the directories of \<open>setup_directories\<close> and refuses no path.
\<close>

definition readable_scene :: "scene \<Rightarrow> bool" where
  "readable_scene s =
     ((case content (view s) of Inl e \<Rightarrow> False | Inr markup \<Rightarrow> True)
      \<and> CHR ''/'' \<notin> set (hms (now s)))"

definition steady :: "world \<Rightarrow> bool" where
  "steady w =
     (list_all readable_scene (current w # upcoming w)
      \<and> dirs (disk w) = dirs fresh_fs \<and> denied (disk w) = [])"

text \<open>
  \<open>evolves w w'\<close>: \<open>w'\<close> is a later state of the run that started in \<open>w\<close>, as far as
  the scenes, the directories and the console go.
\<close>

definition evolves :: "world \<Rightarrow> world \<Rightarrow> bool" where
  "evolves w w' =
     (set (current w' # upcoming w') \<subseteq> set (current w # upcoming w)
      \<and> dirs (disk w') = dirs (disk w) \<and> denied (disk w') = denied (disk w)
      \<and> console w' = console w)"

definition fine :: "world \<Rightarrow> (exn + 'a) \<times> world \<Rightarrow> bool" where
  "fine w r = evolves w (snd r)"

definition sound :: "world \<Rightarrow> (exn + 'a) \<times> world \<Rightarrow> bool" where
  "sound w r = (evolves w (snd r) \<and> (case fst r of Inl e \<Rightarrow> False | Inr x \<Rightarrow> True))"

text \<open>A mapping whose values are all strings.\<close>

definition string_valued :: "pydict \<Rightarrow> bool" where
  "string_valued d = list_all (\<lambda>kv. case snd kv of PStr s \<Rightarrow> True | other \<Rightarrow> False) d"

text \<open>
  A record that the coordinator can name and write: it serializes, its markup (if it is a
  raw-markup record) is a string, and so is its name when it has one.
\<close>

definition storable :: "pyval \<Rightarrow> bool" where
  "storable v =
     (case v of
        PDict d \<Rightarrow>
          json_fault v = None
          \<and> (if has_key d ''html_content''
              then (case dict_get d ''html_content'' of PStr m \<Rightarrow> True | other \<Rightarrow> False)
              else True)
          \<and> (if truthy (dict_get d ''business_name'')
              then (case dict_get d ''business_name'' of PStr n \<Rightarrow> True | other \<Rightarrow> False)
              else True)
      | other \<Rightarrow> False)"

text \<open>The keys that the direct-locator tier sets.\<close>

definition tier_keys :: "string list" where
  "tier_keys = attribute_keys @ [''principal_office_address'', ''registered_office_address'']"

section \<open>Properties\<close>

subsection \<open>Auxiliary facts\<close>

lemma bind_exn_Inr [simp]: "bind_exn (Inr x) f = f x"
  by (simp add: bind_exn_def)

lemma bind_exn_Inl [simp]: "bind_exn (Inl e) f = Inl e"
  by (simp add: bind_exn_def)

lemma get_element_text_returns:
  "get_element_text pg selector =
     Inr (case lookup_text pg selector of Inl e \<Rightarrow> [] | Inr t \<Rightarrow> t)"
  by (simp add: get_element_text_def split: sum.splits)

lemma address_from_total: "\<exists>a. address_from pg s1 s2 s3 s4 = Inr a"
  by (simp add: address_from_def get_element_text_returns)

lemma extract_office_address_total: "\<exists>a. extract_office_address pg office_type = Inr a"
  by (simp add: extract_office_address_def split: sum.splits)

lemma assign_fields_total: "\<exists>d. assign_fields pg kls d0 = Inr d"
  by (induction kls arbitrary: d0) (simp_all add: get_element_text_returns)

lemma extract_by_element_ids_total: "\<exists>d. extract_by_element_ids pg = Inr d"
proof -
  obtain d10 where a: "assign_fields pg field_locators [] = Inr d10"
    using assign_fields_total by blast
  obtain p where b: "extract_office_address pg ''principal'' = Inr p"
    using extract_office_address_total by blast
  obtain r where c: "extract_office_address pg ''registered'' = Inr r"
    using extract_office_address_total by blast
  show ?thesis by (simp add: extract_by_element_ids_def a b c)
qed

lemma extract_from_tables_total: "\<exists>d. extract_from_tables pg = Inr d"
  by (simp add: extract_from_tables_def split: sum.splits)

lemma extract_from_page_text_total: "\<exists>d. extract_from_page_text pg = Inr d"
  by (simp add: extract_from_page_text_def split: sum.splits)

lemma bare_markup_tl: "bare_markup (c # cs) \<Longrightarrow> bare_markup cs"
  by (cases cs) (auto split: if_splits)

lemma bare_markup_dropWhile: "bare_markup s \<Longrightarrow> bare_markup (dropWhile P s)"
proof (induction s)
  case Nil
  then show ?case by simp
next
  case (Cons c cs)
  then show ?case using bare_markup_tl [of c cs] by simp
qed

lemma bare_markup_drop: "bare_markup s \<Longrightarrow> bare_markup (drop n s)"
proof (induction n arbitrary: s)
  case 0
  then show ?case by simp
next
  case (Suc n)
  show ?case
  proof (cases s)
    case Nil
    then show ?thesis by simp
  next
    case (Cons c cs)
    with Suc.prems have "bare_markup cs" using bare_markup_tl [of c cs] by simp
    then have "bare_markup (drop n cs)" by (rule Suc.IH)
    with Cons show ?thesis by simp
  qed
qed

lemma bare_markup_no_group:
  "bare_markup (CHR ''>'' # after) \<Longrightarrow> takeWhile (\<lambda>c. c \<noteq> CHR ''<'') after = []"
  by (cases after) (auto split: if_splits)

lemma dropWhile_gt_head:
  "dropWhile (\<lambda>c. c \<noteq> CHR ''>'') s = g # after \<Longrightarrow> g = CHR ''>''"
  using hd_dropWhile [of "\<lambda>c. c \<noteq> CHR ''>''" s] by auto

lemma match_at_bare: "bare_markup s \<Longrightarrow> match_at literal s = None"
proof -
  assume b: "bare_markup s"
  let ?rest = "dropWhile (\<lambda>c. c \<noteq> CHR ''>'') (drop (length literal) s)"
  have br: "bare_markup ?rest"
    using b by (simp add: bare_markup_drop bare_markup_dropWhile)
  show ?thesis
  proof (cases ?rest)
    case Nil
    show ?thesis unfolding match_at_def Nil by simp
  next
    case (Cons g after)
    then have "g = CHR ''>''" by (rule dropWhile_gt_head)
    with br Cons have "takeWhile (\<lambda>c. c \<noteq> CHR ''<'') after = []"
      using bare_markup_no_group by simp
    then show ?thesis unfolding match_at_def Cons by simp
  qed
qed

lemma re_search_bare: "bare_markup s \<Longrightarrow> re_search literal s = None"
proof (induction s)
  case Nil
  then show ?case by (simp add: match_at_bare)
next
  case (Cons c cs)
  then show ?case using bare_markup_tl [of c cs] by (simp add: match_at_bare)
qed

lemma first_match_bare: "bare_markup s \<Longrightarrow> first_match literals s = None"
proof (induction literals)
  case Nil
  show ?case by simp
next
  case (Cons l ls)
  then show ?case by (simp add: re_search_bare)
qed

lemma search_fields_bare: "bare_markup s \<Longrightarrow> search_fields fps s d = d"
  by (induction fps arbitrary: d) (simp_all add: first_match_bare)

lemma extract_from_page_text_bare:
  "content pg = Inr s \<Longrightarrow> bare_markup s \<Longrightarrow> extract_from_page_text pg = Inr []"
  by (simp add: extract_from_page_text_def search_fields_bare)

lemma empty_form_bare: "bare_markup empty_form_markup"
  by (simp add: empty_form_markup_def)

lemma empty_form_tier1:
  "extract_by_element_ids empty_form_page =
     Inr [(''business_id'', PStr []), (''business_name'', PStr []), (''type'', PStr []),
          (''formation_date'', PStr []), (''jurisdiction'', PStr []), (''status'', PStr []),
          (''resident_agent'', PStr []), (''last_reporting_year'', PStr []),
          (''next_report_due_date'', PStr []), (''forfeiture_date'', PStr []),
          (''principal_office_address'', PStr []), (''registered_office_address'', PStr [])]"
  by (simp add: extract_by_element_ids_def field_locators_def get_element_text_def
      lookup_text_def query_selector_def empty_form_page_def label_element_def
      extract_office_address_def address_from_def compose_address_def dict_set_def
      py_strip_def strip_chars_def)

lemma empty_form_tiers:
  "run_tiers empty_form_page = Inr ([DirectLocator, TableScan, TextPattern], [])"
proof -
  have t2: "extract_from_tables empty_form_page = Inr []"
    by (simp add: extract_from_tables_def empty_form_page_def)
  have t3: "extract_from_page_text empty_form_page = Inr []"
    by (rule extract_from_page_text_bare [where s = empty_form_markup])
       (simp_all add: empty_form_page_def empty_form_bare)
  show ?thesis
    by (simp add: run_tiers_def empty_form_tier1 t2 t3 dict_get_def)
qed

subsection \<open>Artifact identifiers\<close>

text \<open>
  C6, as the code has it. The identifier derived from a business name replaces every
  non-word character by one underscore, one for one: a run of \<open>k\<close> non-word characters
  gives \<open>k\<close> underscores, so the identifier is as long as the name up to the bound, and
  it is cut to 30 characters. Word characters are kept.
\<close>

theorem clean_name_replaces_each:
  "length (clean_name n) = min 30 (length n) \<and>
   (\<forall>i < length (clean_name n).
      clean_name n ! i = (if is_word (n ! i) then n ! i else CHR ''_''))"
  by (simp add: clean_name_def min.commute)

text \<open>The comma and the blank of \<open>A, B\<close> give two underscores.\<close>

theorem clean_name_replaces_each_witness:
  "1 < length (clean_name ''A, B'') \<and> 2 < length (clean_name ''A, B'')
   \<and> clean_name ''A, B'' ! 1 = CHR ''_'' \<and> clean_name ''A, B'' ! 2 = CHR ''_''"
  using clean_name_replaces_each [of "''A, B''"]
  by (simp add: is_word_def code_point_def)

text \<open>
  C6 as stated fails on the specification's own example: the code keeps one underscore
  per character where the specification's wording gives one per run.
\<close>

theorem clean_name_keeps_runs_counterexample:
  "clean_name ''Acme, LLC & Co.'' = ''Acme__LLC___Co_'' \<and>
   spec_clean_name ''Acme, LLC & Co.'' = ''Acme_LLC_Co_'' \<and>
   clean_name ''Acme, LLC & Co.'' \<noteq> spec_clean_name ''Acme, LLC & Co.''"
  by (simp add: clean_name_def spec_clean_name_def is_word_def code_point_def)

subsection \<open>The validation step\<close>

lemma safe_extract_serializable:
  "json_fault (add_metadata clk bd st) = None \<Longrightarrow>
   safe_extract_json_data render clk pg fs bd st = (Inr (add_metadata clk bd st, None), fs)"
  by (simp add: safe_extract_json_data_def Let_def)

lemma missing_data_record:
  assumes "run_tiers pg = Inr (ts, d)"
    and "\<not> (truthy (dict_get d ''business_name'') \<and> truthy (dict_get d ''business_id''))"
    and "content pg = Inr html"
  shows "extract_business_details_robust render clk pg fs st =
           (Inr (PDict [(''html_content'', PStr html),
                        (''error'', PStr ''Essential data missing''),
                        (''timestamp'', PStr (iso clk)),
                        (''search_term'', PStr st),
                        (''status'', PStr ''success''),
                        (''extracted_at'', PStr (iso clk))]), fs)"
proof -
  let ?error_data = "PDict [(''html_content'', PStr html),
                            (''error'', PStr ''Essential data missing''),
                            (''timestamp'', PStr (iso clk)),
                            (''search_term'', PStr st),
                            (''status'', PStr ''data_extraction_failed'')]"
  have m: "add_metadata clk ?error_data st =
             PDict [(''html_content'', PStr html),
                    (''error'', PStr ''Essential data missing''),
                    (''timestamp'', PStr (iso clk)),
                    (''search_term'', PStr st),
                    (''status'', PStr ''success''),
                    (''extracted_at'', PStr (iso clk))]"
    by (simp add: add_metadata_def dict_set_def)
  have s: "safe_extract_json_data render clk pg fs ?error_data st =
             (Inr (add_metadata clk ?error_data st, None), fs)"
    by (rule safe_extract_serializable) (simp add: m)
  have c: "(truthy (dict_get d ''business_name'') \<and> truthy (dict_get d ''business_id''))
             = False"
    using assms(2) by simp
  show ?thesis
    by (simp add: extract_business_details_robust_def robust_attempt_def Let_def assms(1) assms(3) c s m)
qed

text \<open>
  C1 asks that a record with status \<open>success\<close> has a non-empty \<open>business_id\<close> and
  \<open>business_name\<close>. On the unfilled detail form no tier finds a name, so
  \<open>extract_business_details_robust\<close> builds the error record with status
  \<open>data_extraction_failed\<close> and hands it to \<open>safe_extract_json_data\<close>, which sets
  \<open>status\<close> to \<open>success\<close> on every dictionary it is given. The record returned says
  \<open>success\<close> and has neither key, for every clock, file system and search term.
\<close>

theorem failed_extraction_tagged_success:
  "\<exists>d. fst (extract_business_details_robust render clk empty_form_page fs search_term)
          = Inr (PDict d)
       \<and> dict_get d ''status'' = PStr ''success''
       \<and> dict_get d ''error'' = PStr ''Essential data missing''
       \<and> \<not> has_key d ''business_name'' \<and> \<not> has_key d ''business_id''"
proof -
  have c: "content empty_form_page = Inr empty_form_markup"
    by (simp add: empty_form_page_def)
  have n: "\<not> (truthy (dict_get [] ''business_name'') \<and> truthy (dict_get [] ''business_id''))"
    by (simp add: dict_get_def)
  show ?thesis
    unfolding missing_data_record [OF empty_form_tiers n c]
    by (simp add: dict_get_def has_key_def)
qed

subsection \<open>Order of the tiers\<close>

lemmas tier1_eval = extract_by_element_ids_def field_locators_def get_element_text_def
  lookup_text_def query_selector_def label_element_def extract_office_address_def
  address_from_def compose_address_def dict_set_def py_strip_def strip_chars_def
  py_isspace_def code_point_def

lemma acme_tier1:
  "extract_by_element_ids acme_page =
     Inr [(''business_id'', PStr ''1234567''), (''business_name'', PStr ''ACME LLC''),
          (''type'', PStr []),
          (''formation_date'', PStr []), (''jurisdiction'', PStr []), (''status'', PStr []),
          (''resident_agent'', PStr []), (''last_reporting_year'', PStr []),
          (''next_report_due_date'', PStr []), (''forfeiture_date'', PStr []),
          (''principal_office_address'', PStr []), (''registered_office_address'', PStr [])]"
  by (simp add: tier1_eval acme_page_def)

text \<open>
  C3. When the direct-locator tier returns a non-empty \<open>business_name\<close>, the table-scan
  tier and the text-pattern tier are not called and the mapping of the first tier is
  kept. The table-scan tier is called only when the first tier gave no usable name, and
  the text-pattern tier only when neither of the two tiers above it did.
\<close>

theorem tier_priority:
  assumes "extract_by_element_ids pg = Inr data1"
    and "extract_from_tables pg = Inr data2"
  shows "\<exists>ts d. run_tiers pg = Inr (ts, d)
           \<and> (truthy (dict_get data1 ''business_name'')
                 \<longrightarrow> TableScan \<notin> set ts \<and> TextPattern \<notin> set ts \<and> d = data1)
           \<and> (TableScan \<in> set ts \<longrightarrow> \<not> truthy (dict_get data1 ''business_name''))
           \<and> (TextPattern \<in> set ts
                 \<longrightarrow> \<not> truthy (dict_get data1 ''business_name'')
                     \<and> \<not> truthy (dict_get data2 ''business_name''))"
proof -
  obtain data3 where t3: "extract_from_page_text pg = Inr data3"
    using extract_from_page_text_total by blast
  show ?thesis
    by (simp add: run_tiers_def assms t3)
qed

text \<open>On the page of ACME LLC the first tier finds the name and is the only tier called.\<close>

theorem tier_priority_witness:
  "(\<exists>data1. extract_by_element_ids acme_page = Inr data1
       \<and> truthy (dict_get data1 ''business_name''))
   \<and> (\<exists>ts d. run_tiers acme_page = Inr (ts, d)
         \<and> TableScan \<notin> set ts \<and> TextPattern \<notin> set ts)"
proof -
  have t2: "extract_from_tables acme_page = Inr []"
    by (simp add: extract_from_tables_def acme_page_def)
  show ?thesis
    using tier_priority [OF acme_tier1 t2]
    by (auto simp: acme_tier1 dict_get_def)
qed

subsection \<open>Keys of the lower tiers\<close>

lemma has_key_iff: "has_key d k \<longleftrightarrow> k \<in> fst ` set d"
  by (simp add: has_key_def map_of_eq_None_iff)

lemma keys_dict_set: "fst ` set (dict_set d k v) = insert k (fst ` set d)"
  by (simp add: dict_set_def dom_update)

lemma classify_label_keys: "classify_label l = Some k \<Longrightarrow> k \<in> set attribute_keys"
  by (simp add: classify_label_def attribute_keys_def split: if_splits)

lemma scan_row_shape:
  "scan_row r d = Inr d' \<Longrightarrow>
   d' = d \<or> (\<exists>k v. k \<in> set attribute_keys \<and> d' = dict_set d k v)"
  by (auto simp: scan_row_def bind_exn_def Let_def
      split: sum.splits if_splits option.splits dest: classify_label_keys)

lemma scan_row_keys:
  assumes "scan_row r d = Inr d'"
  shows "fst ` set d' \<subseteq> fst ` set d \<union> set attribute_keys"
proof -
  from scan_row_shape [OF assms]
  consider "d' = d" | k v where "k \<in> set attribute_keys" and "d' = dict_set d k v"
    by blast
  then show ?thesis
  proof cases
    case 1
    then show ?thesis by simp
  next
    case 2
    have "fst ` set d' = insert k (fst ` set d)"
      unfolding 2(2) by (rule keys_dict_set)
    then show ?thesis using 2(1) by simp
  qed
qed

lemma scan_rows_keys:
  "fst ` set (fst (scan_rows rs d)) \<subseteq> fst ` set d \<union> set attribute_keys"
proof (induction rs arbitrary: d)
  case Nil
  show ?case by simp
next
  case (Cons r rs)
  show ?case
  proof (cases "scan_row r d")
    case (Inl e)
    then show ?thesis by simp
  next
    case (Inr d')
    have "fst ` set (fst (scan_rows rs d')) \<subseteq> fst ` set d' \<union> set attribute_keys"
      by (rule Cons.IH)
    also have "\<dots> \<subseteq> fst ` set d \<union> set attribute_keys"
      using scan_row_keys [OF Inr] by blast
    finally show ?thesis using Inr by simp
  qed
qed

lemma scan_tables_keys:
  "fst ` set (fst (scan_tables ts d)) \<subseteq> fst ` set d \<union> set attribute_keys"
proof (induction ts arbitrary: d)
  case Nil
  show ?case by simp
next
  case (Cons t ts)
  show ?case
  proof (cases t)
    case (Inl e)
    then show ?thesis by simp
  next
    case (Inr rows)
    obtain d' err where s: "scan_rows rows d = (d', err)" by (cases "scan_rows rows d")
    have k: "fst ` set d' \<subseteq> fst ` set d \<union> set attribute_keys"
      using scan_rows_keys [of rows d] s by simp
    show ?thesis
    proof (cases err)
      case None
      have "fst ` set (fst (scan_tables ts d')) \<subseteq> fst ` set d' \<union> set attribute_keys"
        by (rule Cons.IH)
      then show ?thesis using k Inr s None by auto
    next
      case (Some e)
      then show ?thesis using k Inr s by simp
    qed
  qed
qed

lemma extract_from_tables_keys:
  "extract_from_tables pg = Inr d \<Longrightarrow> fst ` set d \<subseteq> set attribute_keys"
  using scan_tables_keys [of _ "[]"]
  by (auto simp: extract_from_tables_def split: sum.splits)

lemma search_fields_keys:
  "fst ` set (search_fields fps t d) \<subseteq> fst ` set d \<union> fst ` set fps"
proof (induction fps arbitrary: d)
  case Nil
  show ?case by simp
next
  case (Cons fp fps)
  show ?case
  proof (cases "first_match (snd fp) t")
    case None
    then show ?thesis using Cons.IH [of d] by auto
  next
    case (Some g)
    then show ?thesis
      using Cons.IH [of "dict_set d (fst fp) (PStr (py_strip g))"]
      by (auto simp: keys_dict_set)
  qed
qed

lemma patterns_keys: "fst ` set patterns = set attribute_keys"
  by (simp add: patterns_def attribute_keys_def)

lemma extract_from_page_text_keys:
  "extract_from_page_text pg = Inr d \<Longrightarrow> fst ` set d \<subseteq> set attribute_keys"
  using search_fields_keys [of patterns _ "[]"]
  by (auto simp: extract_from_page_text_def patterns_keys split: sum.splits)

lemma no_address_keys:
  "fst ` set d \<subseteq> set attribute_keys \<Longrightarrow>
   \<not> has_key d ''principal_office_address'' \<and> \<not> has_key d ''registered_office_address''"
  by (auto simp: has_key_iff attribute_keys_def)

subsection \<open>Keys of the validated record\<close>

lemma add_metadata_dict:
  "add_metadata clk (PDict d0) st =
     PDict (dict_set (dict_set (dict_set d0 ''search_term'' (PStr st))
                        ''extracted_at'' (PStr (iso clk))) ''status'' (PStr ''success''))"
  by (simp add: add_metadata_def)

lemma add_metadata_keys:
  assumes "add_metadata clk (PDict d0) st = PDict rec"
  shows "fst ` set rec \<subseteq> fst ` set d0 \<union> set record_keys"
proof -
  have "fst ` set rec
          = insert ''status'' (insert ''extracted_at'' (insert ''search_term'' (fst ` set d0)))"
    using assms unfolding add_metadata_dict by (clarsimp simp: keys_dict_set)
  then show ?thesis by (simp add: record_keys_def subset_insertI2)
qed

lemma safe_extract_Inl:
  "safe_extract_json_data render clk pg fs bd st = (Inl e, fs') \<Longrightarrow>
   content pg = Inl e \<and> fs' = fs"
  by (simp add: safe_extract_json_data_def Let_def split: option.splits sum.splits)

lemma safe_extract_keys:
  assumes "safe_extract_json_data render clk pg fs (PDict d0) st = (Inr (v, ref), fs')"
  shows "\<exists>rec. v = PDict rec \<and> fst ` set rec \<subseteq> fst ` set d0 \<union> set record_keys"
proof (cases "json_fault (add_metadata clk (PDict d0) st)")
  case None
  then have v: "v = add_metadata clk (PDict d0) st"
    using assms by (simp add: safe_extract_json_data_def Let_def)
  obtain rec where r: "add_metadata clk (PDict d0) st = PDict rec"
    by (simp add: add_metadata_def)
  show ?thesis using add_metadata_keys [OF r] v r by simp
next
  case (Some t)
  obtain markup where c: "content pg = Inr markup"
    using assms Some by (cases "content pg") (simp_all add: safe_extract_json_data_def Let_def)
  have "\<exists>a b c d e f g. v = PDict [(''search_term'', a), (''status'', b), (''error_type'', c),
           (''error_message'', d), (''scraped_at'', e), (''html_fallback_file'', f),
           (''partial_business_data'', g)]"
    using assms Some c by (auto simp: safe_extract_json_data_def Let_def)
  then show ?thesis by (auto simp: record_keys_def)
qed

lemma robust_good:
  assumes "run_tiers pg = Inr (ts, d)"
    and "truthy (dict_get d ''business_name'')" and "truthy (dict_get d ''business_id'')"
  shows "extract_business_details_robust render clk pg fs st =
           (case safe_extract_json_data render clk pg fs (PDict d) st of
              (Inl e, fs1) \<Rightarrow> (Inl e, fs1)
            | (Inr safe, fs1) \<Rightarrow> (Inr (fst safe), fs1))"
proof -
  obtain r fs1 where s: "safe_extract_json_data render clk pg fs (PDict d) st = (r, fs1)"
    by (cases "safe_extract_json_data render clk pg fs (PDict d) st")
  show ?thesis
  proof (cases r)
    case (Inl e)
    with s have "content pg = Inl e" using safe_extract_Inl by blast
    then show ?thesis
      using assms s Inl by (simp add: extract_business_details_robust_def robust_attempt_def Let_def)
  next
    case (Inr safe)
    then show ?thesis
      using assms s by (simp add: extract_business_details_robust_def robust_attempt_def Let_def)
  qed
qed

lemma robust_unreadable:
  assumes "run_tiers pg = Inr (ts, d)"
    and "\<not> (truthy (dict_get d ''business_name'') \<and> truthy (dict_get d ''business_id''))"
    and "content pg = Inl e"
  shows "extract_business_details_robust render clk pg fs st = (Inl e, fs)"
proof -
  have c: "(truthy (dict_get d ''business_name'') \<and> truthy (dict_get d ''business_id''))
             = False"
    using assms(2) by simp
  show ?thesis
    by (simp add: extract_business_details_robust_def robust_attempt_def Let_def assms(1) assms(3) c)
qed

lemma robust_record_keys:
  assumes rt: "run_tiers pg = Inr (ts, d)"
    and res: "fst (extract_business_details_robust render clk pg fs st) = Inr (PDict rec)"
  shows "fst ` set rec \<subseteq> fst ` set d \<union> set record_keys"
proof (cases "truthy (dict_get d ''business_name'') \<and> truthy (dict_get d ''business_id'')")
  case True
  obtain r fs1 where s: "safe_extract_json_data render clk pg fs (PDict d) st = (r, fs1)"
    by (cases "safe_extract_json_data render clk pg fs (PDict d) st")
  have eq: "extract_business_details_robust render clk pg fs st =
              (case r of Inl e \<Rightarrow> (Inl e, fs1) | Inr safe \<Rightarrow> (Inr (fst safe), fs1))"
    using robust_good [OF rt, of render clk fs st] True s by (simp split: sum.splits)
  show ?thesis
  proof (cases r)
    case (Inl e)
    then show ?thesis using res eq by simp
  next
    case (Inr vr)
    obtain v ref where vr: "vr = (v, ref)" by (cases vr)
    obtain rec' where "v = PDict rec'"
      and k: "fst ` set rec' \<subseteq> fst ` set d \<union> set record_keys"
      using safe_extract_keys [of render clk pg fs d st v ref fs1] s Inr vr by auto
    moreover have "v = PDict rec" using res eq Inr vr by simp
    ultimately show ?thesis by simp
  qed
next
  case False
  show ?thesis
  proof (cases "content pg")
    case (Inl e)
    then show ?thesis using res robust_unreadable [OF rt False Inl, of render clk fs st] by simp
  next
    case (Inr html)
    have "rec = [(''html_content'', PStr html),
                 (''error'', PStr ''Essential data missing''),
                 (''timestamp'', PStr (iso clk)),
                 (''search_term'', PStr st),
                 (''status'', PStr ''success''),
                 (''extracted_at'', PStr (iso clk))]"
      using res missing_data_record [OF rt False Inr, of render clk fs st]
      by simp
    then show ?thesis by (simp add: record_keys_def)
  qed
qed

subsection \<open>Lower tiers replace the mapping\<close>

lemma table_tier1:
  "extract_by_element_ids table_page =
     Inr [(''business_id'', PStr []), (''business_name'', PStr []),
          (''type'', PStr ''LLC''),
          (''formation_date'', PStr []), (''jurisdiction'', PStr []), (''status'', PStr []),
          (''resident_agent'', PStr []), (''last_reporting_year'', PStr []),
          (''next_report_due_date'', PStr []), (''forfeiture_date'', PStr []),
          (''principal_office_address'', PStr []), (''registered_office_address'', PStr [])]"
  by (simp add: tier1_eval table_page_def)

lemmas tier2_eval = extract_from_tables_def scan_row_def text_row_def text_cell_def
  classify_label_def py_lower_def py_lower_char_def py_strip_def py_isspace_def code_point_def
  dict_set_def

lemma table_tier2:
  "extract_from_tables table_page =
     Inr [(''business_name'', PStr ''Acme LLC''), (''business_id'', PStr ''123'')]"
  by (simp add: tier2_eval table_page_def)

text \<open>
  C10. When the first tier gives no usable name, the mapping that leaves the tiers is the
  mapping of the table-scan tier if that one has a name, and the mapping of the
  text-pattern tier otherwise: nothing of the first tier's mapping is kept. That mapping
  has neither address key, and neither has the record that
  \<open>extract_business_details_robust\<close> returns for it.
\<close>

theorem lower_tier_replaces:
  assumes "extract_by_element_ids pg = Inr data1"
    and "\<not> truthy (dict_get data1 ''business_name'')"
    and "extract_from_tables pg = Inr data2"
    and "extract_from_page_text pg = Inr data3"
  shows "\<exists>ts d. run_tiers pg = Inr (ts, d)
           \<and> d = (if truthy (dict_get data2 ''business_name'') then data2 else data3)
           \<and> \<not> has_key d ''principal_office_address''
           \<and> \<not> has_key d ''registered_office_address''
           \<and> (\<forall>final_record.
                 fst (extract_business_details_robust render clk pg fs st) = Inr (PDict final_record)
                 \<longrightarrow> \<not> has_key final_record ''principal_office_address''
                     \<and> \<not> has_key final_record ''registered_office_address'')"
proof -
  let ?d = "if truthy (dict_get data2 ''business_name'') then data2 else data3"
  let ?ts = "if truthy (dict_get data2 ''business_name'')
             then [DirectLocator, TableScan] else [DirectLocator, TableScan, TextPattern]"
  have rt: "run_tiers pg = Inr (?ts, ?d)"
    using assms by (simp add: run_tiers_def)
  have k: "fst ` set ?d \<subseteq> set attribute_keys"
    using extract_from_tables_keys [OF assms(3)] extract_from_page_text_keys [OF assms(4)]
    by simp
  have a: "\<not> has_key ?d ''principal_office_address''
           \<and> \<not> has_key ?d ''registered_office_address''"
    using no_address_keys [OF k] .
  have r: "\<not> has_key final_record ''principal_office_address''
           \<and> \<not> has_key final_record ''registered_office_address''"
    if "fst (extract_business_details_robust render clk pg fs st) = Inr (PDict final_record)"
    for final_record
  proof -
    have "fst ` set final_record \<subseteq> fst ` set ?d \<union> set record_keys"
      using robust_record_keys [OF rt that] .
    then have "fst ` set final_record \<subseteq> set attribute_keys \<union> set record_keys"
      using k by blast
    then show ?thesis
      by (auto simp: has_key_iff attribute_keys_def record_keys_def)
  qed
  show ?thesis using rt a r by blast
qed

text \<open>
  On the page with the table the first tier reads the type \<open>LLC\<close> and both (empty)
  addresses; the mapping that comes out is the table's, without them.
\<close>

theorem lower_tier_replaces_witness:
  "(\<exists>data1. extract_by_element_ids table_page = Inr data1
       \<and> \<not> truthy (dict_get data1 ''business_name'')
       \<and> dict_get data1 ''type'' = PStr ''LLC''
       \<and> has_key data1 ''principal_office_address'')
   \<and> (\<exists>ts d. run_tiers table_page = Inr (ts, d)
         \<and> d = [(''business_name'', PStr ''Acme LLC''), (''business_id'', PStr ''123'')]
         \<and> \<not> has_key d ''principal_office_address'')
   \<and> (\<exists>final_record. fst (extract_business_details_robust (\<lambda>v. []) noon table_page fresh_fs ''AA'')
                   = Inr (PDict final_record)
         \<and> \<not> has_key final_record ''principal_office_address''
         \<and> \<not> has_key final_record ''registered_office_address'')"
proof -
  have n1: "\<not> truthy (dict_get [(''business_id'', PStr []), (''business_name'', PStr []),
          (''type'', PStr ''LLC''),
          (''formation_date'', PStr []), (''jurisdiction'', PStr []), (''status'', PStr []),
          (''resident_agent'', PStr []), (''last_reporting_year'', PStr []),
          (''next_report_due_date'', PStr []), (''forfeiture_date'', PStr []),
          (''principal_office_address'', PStr []), (''registered_office_address'', PStr [])]
            ''business_name'')"
    by (simp add: dict_get_def)
  obtain data3 where t3: "extract_from_page_text table_page = Inr data3"
    using extract_from_page_text_total by blast
  have rt: "run_tiers table_page
              = Inr ([DirectLocator, TableScan],
                     [(''business_name'', PStr ''Acme LLC''), (''business_id'', PStr ''123'')])"
    by (simp add: run_tiers_def table_tier1 table_tier2 dict_get_def)
  have rec: "\<exists>final_record. fst (extract_business_details_robust (\<lambda>v. []) noon table_page fresh_fs ''AA'')
                   = Inr (PDict final_record)"
    by (simp add: robust_good [OF rt] dict_get_def safe_extract_serializable add_metadata_dict
        dict_set_def)
  show ?thesis
    using lower_tier_replaces [OF table_tier1 n1 table_tier2 t3,
        of "\<lambda>v. []" noon fresh_fs "''AA''"] rec
    by (auto simp: table_tier1 rt dict_get_def has_key_def)
qed

subsection \<open>Failures inside the tiers\<close>

lemma scan_rows_append:
  "scan_rows (a @ b) d =
     (case scan_rows a d of (d', None) \<Rightarrow> scan_rows b d' | (d', Some e) \<Rightarrow> (d', Some e))"
  by (induction a arbitrary: d) (simp_all split: sum.splits)

lemma scan_tables_append:
  "scan_tables (a @ b) d =
     (case scan_tables a d of (d', None) \<Rightarrow> scan_tables b d' | (d', Some e) \<Rightarrow> (d', Some e))"
  by (induction a arbitrary: d) (simp_all split: sum.splits prod.splits option.splits)

lemma scan_stops_at_failure:
  assumes ok: "snd (scan_tables (before @ [Inr rows_read]) d) = None"
    and bad: "scan_row r (fst (scan_tables (before @ [Inr rows_read]) d)) = Inl e"
  shows "scan_tables (before @ Inr (rows_read @ r # rest) # later) d
           = (fst (scan_tables (before @ [Inr rows_read]) d), Some e)"
proof -
  obtain d1 e1 where b: "scan_tables before d = (d1, e1)" by (cases "scan_tables before d")
  have e1: "e1 = None"
    using ok b by (cases e1) (simp_all add: scan_tables_append)
  obtain d2 e2 where rr: "scan_rows rows_read d1 = (d2, e2)" by (cases "scan_rows rows_read d1")
  have e2: "e2 = None"
    using ok b e1 rr by (cases e2) (simp_all add: scan_tables_append)
  have f: "fst (scan_tables (before @ [Inr rows_read]) d) = d2"
    using b e1 rr e2 by (simp add: scan_tables_append)
  have "scan_rows (rows_read @ r # rest) d1 = (d2, Some e)"
    using rr e2 bad f by (simp add: scan_rows_append)
  then show ?thesis
    using b e1 f by (simp add: scan_tables_append)
qed

lemma address_from_returns:
  "address_from pg s1 s2 s3 s4 =
     Inr (compose_address
            (case lookup_text pg s1 of Inl e \<Rightarrow> [] | Inr t \<Rightarrow> t)
            (case lookup_text pg s2 of Inl e \<Rightarrow> [] | Inr t \<Rightarrow> t)
            (case lookup_text pg s3 of Inl e \<Rightarrow> [] | Inr t \<Rightarrow> t)
            (case lookup_text pg s4 of Inl e \<Rightarrow> [] | Inr t \<Rightarrow> t))"
  by (simp add: address_from_def get_element_text_returns)

lemma tier1_fields:
  "\<exists>d. extract_by_element_ids pg = Inr d
       \<and> map fst d = tier_keys
       \<and> (\<forall>kl \<in> set field_locators.
             dict_get d (fst kl)
               = PStr (case lookup_text pg (snd kl) of Inl e \<Rightarrow> [] | Inr t \<Rightarrow> t))
       \<and> dict_get d ''principal_office_address''
           = PStr (compose_address
                     (case lookup_text pg ''#MainContent_lblPOAddress'' of
                        Inl e \<Rightarrow> [] | Inr t \<Rightarrow> t)
                     (case lookup_text pg ''#MainContent_lblPOAddressCity'' of
                        Inl e \<Rightarrow> [] | Inr t \<Rightarrow> t)
                     (case lookup_text pg ''#MainContent_lblPOAddressState'' of
                        Inl e \<Rightarrow> [] | Inr t \<Rightarrow> t)
                     (case lookup_text pg ''#MainContent_lblPOAddressZip'' of
                        Inl e \<Rightarrow> [] | Inr t \<Rightarrow> t))
       \<and> dict_get d ''registered_office_address''
           = PStr (compose_address
                     (case lookup_text pg ''#MainContent_lblROAddress'' of
                        Inl e \<Rightarrow> [] | Inr t \<Rightarrow> t)
                     (case lookup_text pg ''#MainContent_lblROAddressCity'' of
                        Inl e \<Rightarrow> [] | Inr t \<Rightarrow> t)
                     (case lookup_text pg ''#MainContent_lblROAddressState'' of
                        Inl e \<Rightarrow> [] | Inr t \<Rightarrow> t)
                     (case lookup_text pg ''#MainContent_lblROAddressZip'' of
                        Inl e \<Rightarrow> [] | Inr t \<Rightarrow> t))"
  by (simp add: extract_by_element_ids_def field_locators_def get_element_text_returns
      extract_office_address_def address_from_returns dict_set_def dict_get_def
      tier_keys_def attribute_keys_def)

text \<open>
  C8, as the code has it. None of the three tiers raises. In the direct-locator tier each
  of the ten plain attributes is looked up on its own: it gets the stripped text of its
  element, or the empty string when the lookup or the read fails, whatever happened to
  the other lookups. The two office addresses are each composed from four lookups of the
  same kind, a failed one counting as the empty string, so the mapping of this tier always
  has all twelve keys. In the table-scan tier the first failure ends the scan: the tier
  returns what the rows before the failing one have set and reads no later row, so an
  attribute that was not reached is absent from the mapping, not empty. In the
  text-pattern tier a failure to fetch the markup gives the empty mapping.
\<close>

theorem tiers_never_raise:
  "(\<exists>d. extract_by_element_ids pg = Inr d
       \<and> map fst d = tier_keys
       \<and> (\<forall>kl \<in> set field_locators.
             dict_get d (fst kl)
               = PStr (case lookup_text pg (snd kl) of Inl e \<Rightarrow> [] | Inr t \<Rightarrow> t))
       \<and> dict_get d ''principal_office_address''
           = PStr (compose_address
                     (case lookup_text pg ''#MainContent_lblPOAddress'' of
                        Inl e \<Rightarrow> [] | Inr t \<Rightarrow> t)
                     (case lookup_text pg ''#MainContent_lblPOAddressCity'' of
                        Inl e \<Rightarrow> [] | Inr t \<Rightarrow> t)
                     (case lookup_text pg ''#MainContent_lblPOAddressState'' of
                        Inl e \<Rightarrow> [] | Inr t \<Rightarrow> t)
                     (case lookup_text pg ''#MainContent_lblPOAddressZip'' of
                        Inl e \<Rightarrow> [] | Inr t \<Rightarrow> t))
       \<and> dict_get d ''registered_office_address''
           = PStr (compose_address
                     (case lookup_text pg ''#MainContent_lblROAddress'' of
                        Inl e \<Rightarrow> [] | Inr t \<Rightarrow> t)
                     (case lookup_text pg ''#MainContent_lblROAddressCity'' of
                        Inl e \<Rightarrow> [] | Inr t \<Rightarrow> t)
                     (case lookup_text pg ''#MainContent_lblROAddressState'' of
                        Inl e \<Rightarrow> [] | Inr t \<Rightarrow> t)
                     (case lookup_text pg ''#MainContent_lblROAddressZip'' of
                        Inl e \<Rightarrow> [] | Inr t \<Rightarrow> t)))
   \<and> (\<exists>d. extract_from_tables pg = Inr d)
   \<and> (\<exists>d. extract_from_page_text pg = Inr d)
   \<and> (\<forall>before rows_read r rest later e.
         tables pg = Inr (before @ Inr (rows_read @ r # rest) # later)
         \<and> snd (scan_tables (before @ [Inr rows_read]) []) = None
         \<and> scan_row r (fst (scan_tables (before @ [Inr rows_read]) [])) = Inl e
         \<longrightarrow> extract_from_tables pg = Inr (fst (scan_tables (before @ [Inr rows_read]) [])))
   \<and> (\<forall>e. content pg = Inl e \<longrightarrow> extract_from_page_text pg = Inr [])"
proof -
  have stop: "extract_from_tables pg = Inr (fst (scan_tables (before @ [Inr rows_read]) []))"
    if "tables pg = Inr (before @ Inr (rows_read @ r # rest) # later)"
      and "snd (scan_tables (before @ [Inr rows_read]) []) = None"
      and "scan_row r (fst (scan_tables (before @ [Inr rows_read]) [])) = Inl e"
    for before rows_read r rest later e
    using that scan_stops_at_failure [of before rows_read "[]" r e rest later]
    by (simp add: extract_from_tables_def)
  have unread: "extract_from_page_text pg = Inr []" if "content pg = Inl e" for e
    using that by (simp add: extract_from_page_text_def)
  have rest: "(\<exists>d. extract_from_tables pg = Inr d)
     \<and> (\<exists>d. extract_from_page_text pg = Inr d)
     \<and> (\<forall>before rows_read r rest later e.
           tables pg = Inr (before @ Inr (rows_read @ r # rest) # later)
           \<and> snd (scan_tables (before @ [Inr rows_read]) []) = None
           \<and> scan_row r (fst (scan_tables (before @ [Inr rows_read]) [])) = Inl e
           \<longrightarrow> extract_from_tables pg = Inr (fst (scan_tables (before @ [Inr rows_read]) [])))
     \<and> (\<forall>e. content pg = Inl e \<longrightarrow> extract_from_page_text pg = Inr [])"
    using extract_from_tables_total [of pg] extract_from_page_text_total [of pg] stop unread
    by blast
  show ?thesis
    by (rule conjI [OF tier1_fields rest])
qed

lemma flaky_tier2:
  "extract_from_tables flaky_page = Inr [(''business_id'', PStr ''123'')]"
  by (simp add: tier2_eval flaky_page_def detached_row_def)

text \<open>
  On the page that is re-rendered while it is read, the name lookup of the first tier
  fails and the number is still read; the city of the principal office fails and the
  address is composed from the other three texts; the table scan ends at the detached
  row; the text tier cannot fetch the markup.
\<close>

theorem tiers_never_raise_witness:
  "lookup_text flaky_page ''#MainContent_lblEntityName'' = Inl (DriverError ''Timeout 30000ms exceeded'')
   \<and> lookup_text flaky_page ''#MainContent_lblPOAddressCity''
       = Inl (DriverError ''Timeout 30000ms exceeded'')
   \<and> (\<exists>d. extract_by_element_ids flaky_page = Inr d
         \<and> dict_get d ''business_name'' = PStr []
         \<and> dict_get d ''business_id'' = PStr ''123''
         \<and> dict_get d ''principal_office_address'' = PStr ''100 Main St | KS 66101''
         \<and> dict_get d ''registered_office_address'' = PStr [])
   \<and> scan_row detached_row [(''business_id'', PStr ''123'')]
         = Inl (DriverError ''element is not attached to the DOM'')
   \<and> extract_from_tables flaky_page = Inr [(''business_id'', PStr ''123'')]
   \<and> content flaky_page = Inl (DriverError ''page is navigating'')
   \<and> extract_from_page_text flaky_page = Inr []"
proof -
  have l1: "lookup_text flaky_page ''#MainContent_lblEntityName''
              = Inl (DriverError ''Timeout 30000ms exceeded'')"
    by (simp add: lookup_text_def query_selector_def flaky_page_def)
  have l2: "lookup_text flaky_page ''#MainContent_lblEntityID'' = Inr ''123''"
    by (simp add: lookup_text_def query_selector_def flaky_page_def label_element_def
        py_strip_def py_isspace_def code_point_def)
  have p: "lookup_text flaky_page ''#MainContent_lblPOAddress'' = Inr ''100 Main St''"
    "lookup_text flaky_page ''#MainContent_lblPOAddressCity''
       = Inl (DriverError ''Timeout 30000ms exceeded'')"
    "lookup_text flaky_page ''#MainContent_lblPOAddressState'' = Inr ''KS''"
    "lookup_text flaky_page ''#MainContent_lblPOAddressZip'' = Inr ''66101''"
    by (simp_all add: lookup_text_def query_selector_def flaky_page_def label_element_def
        py_strip_def py_isspace_def code_point_def)
  have r: "lookup_text flaky_page ''#MainContent_lblROAddress'' = Inr []"
    "lookup_text flaky_page ''#MainContent_lblROAddressCity'' = Inr []"
    "lookup_text flaky_page ''#MainContent_lblROAddressState'' = Inr []"
    "lookup_text flaky_page ''#MainContent_lblROAddressZip'' = Inr []"
    by (simp_all add: lookup_text_def query_selector_def flaky_page_def)
  have pa: "compose_address ''100 Main St'' [] ''KS'' ''66101'' = ''100 Main St | KS 66101''"
    by (simp add: compose_address_def strip_chars_def)
  have ra: "compose_address [] [] [] [] = []"
    by (simp add: compose_address_def)
  have t: "tables flaky_page
             = Inr ([] @ Inr ([text_row ''Entity ID'' ''123''] @ detached_row
                     # [text_row ''Entity Name'' ''Acme LLC'']) # [])"
    by (simp add: flaky_page_def)
  have s1: "scan_tables ([] @ [Inr [text_row ''Entity ID'' ''123'']]) []
              = ([(''business_id'', PStr ''123'')], None)"
    by (simp add: tier2_eval)
  have s2: "scan_row detached_row [(''business_id'', PStr ''123'')]
              = Inl (DriverError ''element is not attached to the DOM'')"
    by (simp add: scan_row_def detached_row_def)
  have c: "content flaky_page = Inl (DriverError ''page is navigating'')"
    by (simp add: flaky_page_def)
  have stop: "extract_from_tables flaky_page
                = Inr (fst (scan_tables ([] @ [Inr [text_row ''Entity ID'' ''123'']]) []))"
    using tiers_never_raise [of flaky_page, THEN conjunct2, THEN conjunct2, THEN conjunct2,
        THEN conjunct1, rule_format,
        of "[]" "[text_row ''Entity ID'' ''123'']" detached_row
           "[text_row ''Entity Name'' ''Acme LLC'']" "[]"
           "DriverError ''element is not attached to the DOM''"]
      t s1 s2
    by simp
  have unread: "extract_from_page_text flaky_page = Inr []"
    using tiers_never_raise [of flaky_page, THEN conjunct2, THEN conjunct2, THEN conjunct2,
        THEN conjunct2, rule_format, OF c] .
  obtain d where d: "extract_by_element_ids flaky_page = Inr d"
    and f: "\<forall>kl \<in> set field_locators.
             dict_get d (fst kl)
               = PStr (case lookup_text flaky_page (snd kl) of Inl e \<Rightarrow> [] | Inr t \<Rightarrow> t)"
    and po: "dict_get d ''principal_office_address''
           = PStr (compose_address
                     (case lookup_text flaky_page ''#MainContent_lblPOAddress'' of
                        Inl e \<Rightarrow> [] | Inr t \<Rightarrow> t)
                     (case lookup_text flaky_page ''#MainContent_lblPOAddressCity'' of
                        Inl e \<Rightarrow> [] | Inr t \<Rightarrow> t)
                     (case lookup_text flaky_page ''#MainContent_lblPOAddressState'' of
                        Inl e \<Rightarrow> [] | Inr t \<Rightarrow> t)
                     (case lookup_text flaky_page ''#MainContent_lblPOAddressZip'' of
                        Inl e \<Rightarrow> [] | Inr t \<Rightarrow> t))"
    and ro: "dict_get d ''registered_office_address''
           = PStr (compose_address
                     (case lookup_text flaky_page ''#MainContent_lblROAddress'' of
                        Inl e \<Rightarrow> [] | Inr t \<Rightarrow> t)
                     (case lookup_text flaky_page ''#MainContent_lblROAddressCity'' of
                        Inl e \<Rightarrow> [] | Inr t \<Rightarrow> t)
                     (case lookup_text flaky_page ''#MainContent_lblROAddressState'' of
                        Inl e \<Rightarrow> [] | Inr t \<Rightarrow> t)
                     (case lookup_text flaky_page ''#MainContent_lblROAddressZip'' of
                        Inl e \<Rightarrow> [] | Inr t \<Rightarrow> t))"
    using tiers_never_raise [of flaky_page, THEN conjunct1] by blast
  have n: "dict_get d ''business_name'' = PStr []" "dict_get d ''business_id'' = PStr ''123''"
    using f l1 l2 by (simp_all add: field_locators_def)
  have a: "dict_get d ''principal_office_address'' = PStr ''100 Main St | KS 66101''"
    "dict_get d ''registered_office_address'' = PStr []"
    using po ro by (simp_all add: p r pa ra)
  show ?thesis
    using l1 p(2) d n a s2 stop s1 c unread by simp
qed

text \<open>
  C8 as stated fails in the table-scan tier: after the detached row the scan does not
  go on to the remaining rows. The third row is readable and names the business, yet
  the mapping has no \<open>business_name\<close> at all, which is not the empty string either.
\<close>

theorem table_scan_abandons_rows_counterexample:
  "extract_from_tables flaky_page = Inr [(''business_id'', PStr ''123'')]
   \<and> \<not> has_key [(''business_id'', PStr ''123'')] ''business_name''
   \<and> dict_get [(''business_id'', PStr ''123'')] ''business_name'' \<noteq> PStr []
   \<and> scan_row (text_row ''Entity Name'' ''Acme LLC'') [(''business_id'', PStr ''123'')]
         = Inr [(''business_id'', PStr ''123''), (''business_name'', PStr ''Acme LLC'')]"
  by (simp add: flaky_tier2 has_key_def dict_get_def scan_row_def text_row_def text_cell_def
      classify_label_def py_lower_def py_lower_char_def py_strip_def py_isspace_def
      code_point_def dict_set_def)

subsection \<open>Rows that set the same attribute\<close>







lemma text_row_assignment:
  "row_assignment (text_row l v) =
     (if py_strip l \<noteq> [] \<and> py_strip v \<noteq> []
      then (case classify_label (py_lower (py_strip l)) of
              Some key \<Rightarrow> Some (key, py_strip v)
            | None \<Rightarrow> None)
      else None)"
  by (simp add: row_assignment_def text_row_def text_cell_def)







subsection \<open>Validation when serialization fails\<close>

lemma can_open_w_write_file [simp]: "can_open_w (write_file fs p d) q = can_open_w fs q"
  by (simp add: can_open_w_def write_file_def)

lemma files_write_file: "map_of (files (write_file fs p d)) p = Some d"
  by (simp add: write_file_def update_conv')

lemma save_html_fallback_written:
  "can_open_w fs (fallback_path clk prefix kind) \<Longrightarrow>
   save_html_fallback clk pg fs markup prefix kind
     = (Some (fallback_path clk prefix kind),
        write_file fs (fallback_path clk prefix kind)
          (Markup (fallback_text clk pg kind markup)))"
  by (simp add: save_html_fallback_def Let_def)

lemma save_html_fallback_refused:
  "\<not> can_open_w fs (fallback_path clk prefix kind) \<Longrightarrow>
   save_html_fallback clk pg fs markup prefix kind = (None, fs)"
  by (simp add: save_html_fallback_def Let_def)

text \<open>
  C5, as the code has it. \<open>safe_extract_json_data\<close> serializes the candidate, with the
  provenance keys added to a dictionary, before it returns, and returns the candidate
  when that works. When it fails and the page markup can be fetched, the result is an
  error record with the failure reason, a preview of at most 500 characters of the data
  as a string (\<open>None\<close> only for a value that is falsy, which a dictionary never is
  here), and under \<open>html_fallback_file\<close> the path of the raw-markup file that was
  written; when that file cannot be opened the reference is \<open>None\<close> and nothing is
  written. The serialization failure never reaches the caller; the one exception that
  can is the driver's, raised when the handler fetches the markup.
\<close>

theorem validation_fallback:
  "(json_fault (add_metadata clk bd st) = None
      \<longrightarrow> safe_extract_json_data render clk pg fs bd st
            = (Inr (add_metadata clk bd st, None), fs))
   \<and> (\<forall>t markup.
         json_fault (add_metadata clk bd st) = Some t \<and> content pg = Inr markup
         \<longrightarrow> (\<exists>rec ref fs'.
                safe_extract_json_data render clk pg fs bd st = (Inr (PDict rec, ref), fs')
                \<and> dict_get rec ''status'' = PStr ''error''
                \<and> dict_get rec ''error_message'' = PStr (exn_message (json_error t))
                \<and> dict_get rec ''partial_business_data''
                    = (if truthy (add_metadata clk bd st)
                       then PStr (take 500 (render (add_metadata clk bd st))) else PNone)
                \<and> (\<forall>preview. dict_get rec ''partial_business_data'' = PStr preview
                      \<longrightarrow> length preview \<le> 500)
                \<and> dict_get rec ''html_fallback_file'' = string_or_none ref
                \<and> (can_open_w fs (validation_evidence_path clk st)
                      \<longrightarrow> ref = Some (validation_evidence_path clk st)
                          \<and> map_of (files fs') (validation_evidence_path clk st)
                              = Some (Markup (fallback_text clk pg ''serialization_error''
                                                markup)))
                \<and> (\<not> can_open_w fs (validation_evidence_path clk st)
                      \<longrightarrow> ref = None \<and> fs' = fs)))
   \<and> (\<forall>e fs'. safe_extract_json_data render clk pg fs bd st = (Inl e, fs')
         \<longrightarrow> content pg = Inl e)
   \<and> (\<forall>d. bd = PDict d \<longrightarrow> truthy (add_metadata clk bd st))"
proof -
  have ok: "safe_extract_json_data render clk pg fs bd st
              = (Inr (add_metadata clk bd st, None), fs)"
    if "json_fault (add_metadata clk bd st) = None"
    using that by (rule safe_extract_serializable)
  have bad: "\<exists>rec ref fs'.
                safe_extract_json_data render clk pg fs bd st = (Inr (PDict rec, ref), fs')
                \<and> dict_get rec ''status'' = PStr ''error''
                \<and> dict_get rec ''error_message'' = PStr (exn_message (json_error t))
                \<and> dict_get rec ''partial_business_data''
                    = (if truthy (add_metadata clk bd st)
                       then PStr (take 500 (render (add_metadata clk bd st))) else PNone)
                \<and> (\<forall>preview. dict_get rec ''partial_business_data'' = PStr preview
                      \<longrightarrow> length preview \<le> 500)
                \<and> dict_get rec ''html_fallback_file'' = string_or_none ref
                \<and> (can_open_w fs (validation_evidence_path clk st)
                      \<longrightarrow> ref = Some (validation_evidence_path clk st)
                          \<and> map_of (files fs') (validation_evidence_path clk st)
                              = Some (Markup (fallback_text clk pg ''serialization_error''
                                                markup)))
                \<and> (\<not> can_open_w fs (validation_evidence_path clk st)
                      \<longrightarrow> ref = None \<and> fs' = fs)"
    if f: "json_fault (add_metadata clk bd st) = Some t" and c: "content pg = Inr markup"
    for t markup
  proof (cases "can_open_w fs (validation_evidence_path clk st)")
    case True
    then have
      "save_html_fallback clk pg fs markup (''json_fail_'' @ st) ''serialization_error''
         = (Some (validation_evidence_path clk st),
            write_file fs (validation_evidence_path clk st)
              (Markup (fallback_text clk pg ''serialization_error'' markup)))"
      unfolding validation_evidence_path_def by (rule save_html_fallback_written)
    then show ?thesis
      using f c True
      by (simp add: safe_extract_json_data_def Let_def dict_get_def string_or_none_def
          files_write_file)
  next
    case False
    then have
      "save_html_fallback clk pg fs markup (''json_fail_'' @ st) ''serialization_error''
         = (None, fs)"
      unfolding validation_evidence_path_def by (rule save_html_fallback_refused)
    then show ?thesis
      using f c False
      by (simp add: safe_extract_json_data_def Let_def dict_get_def string_or_none_def)
  qed
  have raised: "content pg = Inl e"
    if "safe_extract_json_data render clk pg fs bd st = (Inl e, fs')" for e fs'
    using safe_extract_Inl [OF that] by simp
  have dict: "truthy (add_metadata clk bd st)" if "bd = PDict d" for d
    using that by (simp add: add_metadata_dict dict_set_def)
  show ?thesis
    using ok bad raised dict by blast
qed


lemmas path_eval = can_open_w_def fresh_fs_def dirname_def basename_def output_dir_def
  fallback_path_def validation_evidence_path_def save_evidence_path_def save_error_path_def
  os_path_join_def noon_def

lemma unserializable_fault:
  "json_fault (add_metadata clk unserializable_record st) = Some ''bytes''"
  by (simp add: unserializable_record_def add_metadata_dict dict_set_def)

lemma evidence_AA_writable: "can_open_w fresh_fs (validation_evidence_path noon ''AA'')"
  by (simp add: path_eval)

lemma evidence_A_B_refused: "\<not> can_open_w fresh_fs (validation_evidence_path noon ''A/B'')"
  by (simp add: path_eval)

text \<open>
  A record holding bytes, for the search term \<open>AA\<close>: the evidence file is written and
  the preview is cut from 600 to 500 characters.
\<close>

theorem validation_fallback_witness:
  "json_fault (add_metadata noon unserializable_record ''AA'') = Some ''bytes''
   \<and> (\<exists>markup. content acme_page = Inr markup)
   \<and> can_open_w fresh_fs (validation_evidence_path noon ''AA'')
   \<and> (\<exists>rec fs'.
         safe_extract_json_data long_render noon acme_page fresh_fs unserializable_record ''AA''
           = (Inr (PDict rec, Some (validation_evidence_path noon ''AA'')), fs')
         \<and> dict_get rec ''error_message''
             = PStr ''Object of type bytes is not JSON serializable''
         \<and> dict_get rec ''partial_business_data'' = PStr (replicate 500 (CHR ''x''))
         \<and> dict_get rec ''html_fallback_file'' = PStr (validation_evidence_path noon ''AA''))"
proof -
  obtain markup where c: "content acme_page = Inr markup"
    by (simp add: acme_page_def)
  have t: "truthy (add_metadata noon unserializable_record ''AA'')"
    by (simp add: unserializable_record_def add_metadata_dict dict_set_def)
  have p: "take 500 (long_render v) = replicate 500 (CHR ''x'')" for v
    by (simp add: long_render_def)
  show ?thesis
    using validation_fallback [of noon unserializable_record "''AA''" long_render acme_page
        fresh_fs, THEN conjunct2, THEN conjunct1, rule_format, of "''bytes''" markup]
      unserializable_fault [of noon "''AA''"] c evidence_AA_writable t p
    by (auto simp: json_error_def string_or_none_def)
qed

text \<open>
  C5 as stated fails in two ways. While the page is navigating the handler's own read of
  the markup raises, and the caller gets that exception instead of an error record. With
  the search term \<open>A/B\<close> the evidence path lies in a directory that does not exist, so
  the error record comes without a reference to an evidence file.
\<close>

theorem validation_without_evidence_counterexample:
  "fst (safe_extract_json_data long_render noon flaky_page fresh_fs unserializable_record ''AA'')
     = Inl (DriverError ''page is navigating'')
   \<and> fst (safe_extract_json_data long_render noon acme_page fresh_fs unserializable_record
            ''A/B'')
       = Inr (PDict [(''search_term'', PStr ''A/B''),
                     (''status'', PStr ''error''),
                     (''error_type'', PStr ''json_serialization_failed''),
                     (''error_message'', PStr ''Object of type bytes is not JSON serializable''),
                     (''scraped_at'', PStr ''2024-01-01T12:00:00''),
                     (''html_fallback_file'', PNone),
                     (''partial_business_data'', PStr (replicate 500 (CHR ''x'')))],
              None)"
proof -
  have c1: "content flaky_page = Inl (DriverError ''page is navigating'')"
    by (simp add: flaky_page_def)
  obtain markup where c2: "content acme_page = Inr markup"
    by (simp add: acme_page_def)
  have r: "save_html_fallback noon acme_page fresh_fs markup (''json_fail_'' @ ''A/B'')
             ''serialization_error'' = (None, fresh_fs)"
    using evidence_A_B_refused unfolding validation_evidence_path_def
    by (rule save_html_fallback_refused)
  have t: "truthy (add_metadata noon unserializable_record ''A/B'')"
    by (simp add: unserializable_record_def add_metadata_dict dict_set_def)
  have p: "take 500 (long_render v) = replicate 500 (CHR ''x'')" for v
    by (simp add: long_render_def)
  have i: "iso noon = ''2024-01-01T12:00:00''"
    by (simp add: noon_def)
  show ?thesis
    using r by (simp add: safe_extract_json_data_def Let_def unserializable_fault c1 c2 t p i
        json_error_def string_or_none_def)
qed

subsection \<open>Persistence\<close>



lemma write_structured_json:
  "can_open_w fs p \<Longrightarrow> \<not> is_markup_record data \<Longrightarrow>
   write_structured fs p data =
     (case json_fault data of
        None \<Rightarrow> (Inr (), write_file fs p (JsonText data))
      | Some t \<Rightarrow> (Inl (json_error t), write_file fs p (PartialJson data)))"
  by (cases data)
     (simp_all add: write_structured_def is_markup_record_def split: option.splits)




lemma json_error_is_serialization [simp]: "is_serialization_error (json_error t)"
  by (simp add: json_error_def is_serialization_error_def)

lemma open_error_not_serialization [simp]: "\<not> is_serialization_error (open_error p)"
  by (simp add: open_error_def is_serialization_error_def)










subsection \<open>Names of the artifacts\<close>

text \<open>
  C7, as the code has it. The structured artifact of a record with a non-empty business
  name is called \<open>json/business_\<close> plus the sanitized name: neither the time nor the
  search term enters the name. The file is opened for writing, so whatever artifact the
  name held before is replaced by the new record. A raw-markup capture is named by its
  prefix, its kind and the time to the second: two captures with the same prefix and
  kind in the same second have the same name.
\<close>

theorem entity_artifact_overwritten:
  assumes "dict_get details ''business_name'' = PStr business_name"
    and "business_name \<noteq> []"
    and "json_fault (PDict details) = None"
    and "\<not> has_key details ''html_content''"
    and "can_open_w fs (os_path_join output_dir (''json/business_'' @ clean_name business_name @ ''.json''))"
  shows "artifact_filename clk details search_term
           = Inr (''json/business_'' @ clean_name business_name @ ''.json'')
         \<and> save_data_with_fallback clk pg fs (PDict details)
               (''json/business_'' @ clean_name business_name @ ''.json'')
             = (Inr (Some (os_path_join output_dir
                             (''json/business_'' @ clean_name business_name @ ''.json''))),
                write_file fs
                  (os_path_join output_dir
                     (''json/business_'' @ clean_name business_name @ ''.json''))
                  (JsonText (PDict details)))
         \<and> (\<forall>earlier.
               map_of (files fs)
                 (os_path_join output_dir
                    (''json/business_'' @ clean_name business_name @ ''.json'')) = Some earlier
               \<longrightarrow> map_of (files (snd (save_data_with_fallback clk pg fs (PDict details)
                                          (''json/business_'' @ clean_name business_name
                                             @ ''.json''))))
                     (os_path_join output_dir
                        (''json/business_'' @ clean_name business_name @ ''.json''))
                   = Some (JsonText (PDict details)))
         \<and> (\<forall>later prefix kind markup.
               stamp later = stamp clk \<and> can_open_w fs (fallback_path clk prefix kind)
               \<longrightarrow> fst (save_html_fallback later pg fs markup prefix kind)
                     = fst (save_html_fallback clk pg fs markup prefix kind)
                   \<and> fst (save_html_fallback clk pg fs markup prefix kind)
                       = Some (fallback_path clk prefix kind))"
proof -
  let ?name = "''json/business_'' @ clean_name business_name @ ''.json''"
  have k: "has_key details ''business_name''"
    using assms(1) by (auto simp: dict_get_def has_key_def split: option.splits)
  have n: "artifact_filename clk details search_term = Inr ?name"
    using assms(1,2) k by (simp add: artifact_filename_def)
  have m: "\<not> is_markup_record (PDict details)"
    using assms(4) by (simp add: is_markup_record_def)
  have s: "save_data_with_fallback clk pg fs (PDict details) ?name
             = (Inr (Some (os_path_join output_dir ?name)),
                write_file fs (os_path_join output_dir ?name) (JsonText (PDict details)))"
    using assms(3,5) m
    by (simp add: save_data_with_fallback_def Let_def write_structured_json)
  have c: "fst (save_html_fallback later pg fs markup prefix kind)
             = fst (save_html_fallback clk pg fs markup prefix kind)
           \<and> fst (save_html_fallback clk pg fs markup prefix kind)
               = Some (fallback_path clk prefix kind)"
    if "stamp later = stamp clk" and "can_open_w fs (fallback_path clk prefix kind)"
    for later prefix kind markup
    using that by (simp add: save_html_fallback_def Let_def fallback_path_def)
  have w: "\<forall>earlier.
             map_of (files fs) (os_path_join output_dir ?name) = Some earlier
             \<longrightarrow> map_of (files (snd (save_data_with_fallback clk pg fs (PDict details) ?name)))
                   (os_path_join output_dir ?name)
                 = Some (JsonText (PDict details))"
    unfolding s snd_conv files_write_file by simp
  from n s w c show ?thesis by blast
qed

text \<open>\<open>Acme LLC\<close> and \<open>Acme,LLC\<close> have the same identifier.\<close>

lemma acme_same_name:
  "clean_name ''Acme LLC'' = ''Acme_LLC''" "clean_name ''Acme,LLC'' = ''Acme_LLC''"
  by (simp_all add: clean_name_def is_word_def code_point_def)

text \<open>The second Acme record, saved in the evening under the search term \<open>LLC\<close>.\<close>

theorem entity_artifact_overwritten_witness:
  "dict_get second_acme ''business_name'' = PStr ''Acme,LLC''
   \<and> json_fault (PDict second_acme) = None \<and> \<not> has_key second_acme ''html_content''
   \<and> can_open_w fresh_fs (os_path_join output_dir ''json/business_Acme_LLC.json'')
   \<and> artifact_filename evening second_acme ''LLC'' = Inr ''json/business_Acme_LLC.json''
   \<and> fst (save_data_with_fallback evening acme_page fresh_fs (PDict second_acme)
            ''json/business_Acme_LLC.json'')
       = Inr (Some ''kansas_business_data/json/business_Acme_LLC.json'')"
proof -
  have a1: "dict_get second_acme ''business_name'' = PStr ''Acme,LLC''"
    by (simp add: second_acme_def dict_get_def)
  have a2: "''Acme,LLC'' \<noteq> []" by simp
  have a3: "json_fault (PDict second_acme) = None"
    by (simp add: second_acme_def)
  have a4: "\<not> has_key second_acme ''html_content''"
    by (simp add: second_acme_def has_key_def)
  have a5: "can_open_w fresh_fs
              (os_path_join output_dir (''json/business_'' @ clean_name ''Acme,LLC'' @ ''.json''))"
    by (simp add: acme_same_name path_eval)
  have p: "os_path_join output_dir ''json/business_Acme_LLC.json''
             = ''kansas_business_data/json/business_Acme_LLC.json''"
    by (simp add: os_path_join_def output_dir_def)
  show ?thesis
    using entity_artifact_overwritten [OF a1 a2 a3 a4 a5, of evening "''LLC''" acme_page]
      a1 a3 a4 a5 p
    by (simp add: acme_same_name)
qed

text \<open>
  C7 as stated fails: two entities, found at different times under different search
  terms, get the same file name, and after both writes the file holds the second record
  only.
\<close>

theorem same_name_overwrites_counterexample:
  "artifact_filename noon first_acme ''AA'' = Inr ''json/business_Acme_LLC.json''
   \<and> artifact_filename evening second_acme ''LLC'' = Inr ''json/business_Acme_LLC.json''
   \<and> files (snd (save_data_with_fallback evening acme_page
                    (snd (save_data_with_fallback noon acme_page fresh_fs (PDict first_acme)
                            ''json/business_Acme_LLC.json''))
                    (PDict second_acme) ''json/business_Acme_LLC.json''))
       = [(''kansas_business_data/json/business_Acme_LLC.json'', JsonText (PDict second_acme))]"
proof -
  have n1: "artifact_filename noon first_acme ''AA'' = Inr ''json/business_Acme_LLC.json''"
    by (simp add: artifact_filename_def first_acme_def has_key_def dict_get_def acme_same_name)
  have n2: "artifact_filename evening second_acme ''LLC'' = Inr ''json/business_Acme_LLC.json''"
    by (simp add: artifact_filename_def second_acme_def has_key_def dict_get_def acme_same_name)
  have o: "can_open_w fresh_fs (os_path_join output_dir ''json/business_Acme_LLC.json'')"
    by (simp add: path_eval)
  have p: "os_path_join output_dir ''json/business_Acme_LLC.json''
             = ''kansas_business_data/json/business_Acme_LLC.json''"
    by (simp add: os_path_join_def output_dir_def)
  have m: "\<not> is_markup_record (PDict first_acme)" "json_fault (PDict first_acme) = None"
    "\<not> is_markup_record (PDict second_acme)" "json_fault (PDict second_acme) = None"
    by (simp_all add: first_acme_def second_acme_def is_markup_record_def has_key_def)
  have s1: "snd (save_data_with_fallback noon acme_page fresh_fs (PDict first_acme)
                   ''json/business_Acme_LLC.json'')
              = write_file fresh_fs ''kansas_business_data/json/business_Acme_LLC.json''
                  (JsonText (PDict first_acme))"
    using o m by (simp add: save_data_with_fallback_def Let_def write_structured_json p)
  have s2: "snd (save_data_with_fallback evening acme_page
                   (write_file fresh_fs ''kansas_business_data/json/business_Acme_LLC.json''
                      (JsonText (PDict first_acme)))
                   (PDict second_acme) ''json/business_Acme_LLC.json'')
              = write_file
                  (write_file fresh_fs ''kansas_business_data/json/business_Acme_LLC.json''
                     (JsonText (PDict first_acme)))
                  ''kansas_business_data/json/business_Acme_LLC.json''
                  (JsonText (PDict second_acme))"
    using o m by (simp add: save_data_with_fallback_def Let_def write_structured_json p)
  have f: "files (write_file
                    (write_file fresh_fs ''kansas_business_data/json/business_Acme_LLC.json''
                       (JsonText (PDict first_acme)))
                    ''kansas_business_data/json/business_Acme_LLC.json''
                    (JsonText (PDict second_acme)))
             = [(''kansas_business_data/json/business_Acme_LLC.json'',
                 JsonText (PDict second_acme))]"
    by (simp add: write_file_def fresh_fs_def)
  show ?thesis
    unfolding s1 s2 f using n1 n2 by simp
qed

subsection \<open>Steps of the crawl and the world\<close>

lemma evolves_refl [simp]: "evolves w w"
  by (simp add: evolves_def)

lemma evolves_trans: "evolves a b \<Longrightarrow> evolves b c \<Longrightarrow> evolves a c"
  unfolding evolves_def by (elim conjE, intro conjI) (erule (1) subset_trans, simp_all)

lemma steady_evolves: "steady w \<Longrightarrow> evolves w w' \<Longrightarrow> steady w'"
  unfolding steady_def evolves_def list_all_iff by (elim conjE, intro conjI) (blast, simp_all)

lemma advance_evolves: "evolves w (advance w)"
  by (cases "upcoming w") (auto simp: evolves_def advance_def)

lemma evolves_advance: "evolves w w1 \<Longrightarrow> evolves w (advance w1)"
  using advance_evolves evolves_trans by blast

lemma evolves_sleep: "evolves w w1 \<Longrightarrow> evolves w (sleep w1)"
  by (simp add: sleep_def evolves_advance)

lemma evolves_disk:
  "evolves w w1 \<Longrightarrow> dirs fs = dirs (disk w1) \<Longrightarrow> denied fs = denied (disk w1) \<Longrightarrow>
   evolves w (w1\<lparr>disk := fs\<rparr>)"
  by (simp add: evolves_def)

lemma evolves_collected: "evolves w w1 \<Longrightarrow> evolves w (w1\<lparr>collected := c\<rparr>)"
  by (simp add: evolves_def)

lemma sound_fine: "sound w r \<Longrightarrow> fine w r"
  by (simp add: sound_def fine_def)

lemma sound_return: "evolves w w1 \<Longrightarrow> sound w (Inr x, w1)"
  by (simp add: sound_def)

lemma fine_pair: "evolves w w1 \<Longrightarrow> fine w (r, w1)"
  by (simp add: fine_def)

lemma fine_reading: "evolves w w1 \<Longrightarrow> fine w (reading r w1)"
  by (simp add: fine_def reading_def)

lemma fine_act: "evolves w w1 \<Longrightarrow> fine w (act w1)"
  by (simp add: fine_def act_def evolves_advance split: option.splits)

lemma fine_then:
  "fine w r \<Longrightarrow> (\<And>x w1. evolves w w1 \<Longrightarrow> fine w (f x w1)) \<Longrightarrow> fine w (then_step r f)"
  by (cases r) (auto simp: fine_def then_step_def split: sum.splits)

lemma sound_then:
  assumes "sound w r" and "\<And>x w1. evolves w w1 \<Longrightarrow> sound w (f x w1)"
  shows "sound w (then_step r f)"
proof -
  obtain x w1 where r: "r = (Inr x, w1)" and e: "evolves w w1"
    using assms(1) by (cases r) (auto simp: sound_def split: sum.splits)
  show ?thesis
    using assms(2) [OF e, of x] by (simp add: r then_step_def)
qed

lemma fine_catch:
  "fine w r \<Longrightarrow> (\<And>e w1. evolves w w1 \<Longrightarrow> fine w (h e w1)) \<Longrightarrow> fine w (catch r h)"
  by (cases r) (auto simp: fine_def catch_def split: sum.splits)

lemma sound_catch:
  assumes "fine w r" and "\<And>e w1. evolves w w1 \<Longrightarrow> sound w (h e w1)"
  shows "sound w (catch r h)"
proof -
  obtain y w1 where r: "r = (y, w1)" by (cases r)
  have e: "evolves w w1" using assms(1) r by (simp add: fine_def)
  show ?thesis
  proof (cases y)
    case (Inl err)
    then show ?thesis using assms(2) [OF e, of err] by (simp add: r catch_def)
  next
    case (Inr x)
    then show ?thesis using e by (simp add: r catch_def sound_def)
  qed
qed

lemma sound_obtain:
  assumes "sound w r"
  obtains x w1 where "r = (Inr x, w1)" and "evolves w w1"
  using assms by (cases r) (auto simp: sound_def split: sum.splits)


lemma layout_write_file [simp]:
  "dirs (write_file fs p d) = dirs fs" "denied (write_file fs p d) = denied fs"
  by (simp_all add: write_file_def)

lemma layout_save_html_fallback [simp]:
  "dirs (snd (save_html_fallback clk pg fs markup prefix kind)) = dirs fs"
  "denied (snd (save_html_fallback clk pg fs markup prefix kind)) = denied fs"
  by (simp_all add: save_html_fallback_def Let_def)

lemma layout_save_error_log [simp]:
  "dirs (snd (save_error_log clk pg fs st msg src)) = dirs fs"
  "denied (snd (save_error_log clk pg fs st msg src)) = denied fs"
  by (simp_all add: save_error_log_def Let_def split: option.splits)

lemma layout_safe_extract [simp]:
  "dirs (snd (safe_extract_json_data render clk pg fs bd st)) = dirs fs"
  "denied (snd (safe_extract_json_data render clk pg fs bd st)) = denied fs"
  by (simp_all add: safe_extract_json_data_def Let_def split: option.splits sum.splits)

lemma layout_write_structured [simp]:
  "dirs (snd (write_structured fs p data)) = dirs fs"
  "denied (snd (write_structured fs p data)) = denied fs"
  by (simp_all add: write_structured_def split: pyval.splits option.splits)

lemma layout_save_data [simp]:
  "dirs (snd (save_data_with_fallback clk pg fs data filename)) = dirs fs"
  "denied (snd (save_data_with_fallback clk pg fs data filename)) = denied fs"
proof -
  obtain r fs1 where w: "write_structured fs (os_path_join output_dir filename) data = (r, fs1)"
    by (cases "write_structured fs (os_path_join output_dir filename) data")
  have l: "dirs fs1 = dirs fs" "denied fs1 = denied fs"
    using layout_write_structured [of fs "os_path_join output_dir filename" data] w by simp_all
  show "dirs (snd (save_data_with_fallback clk pg fs data filename)) = dirs fs"
    using w l by (simp add: save_data_with_fallback_def Let_def split: sum.splits)
  show "denied (snd (save_data_with_fallback clk pg fs data filename)) = denied fs"
    using w l by (simp add: save_data_with_fallback_def Let_def split: sum.splits)
qed

lemma layout_robust_attempt [simp]:
  "dirs (snd (robust_attempt render clk pg fs st)) = dirs fs"
  "denied (snd (robust_attempt render clk pg fs st)) = denied fs"
proof -
  have a: "dirs (snd (case safe_extract_json_data render clk pg fs bd st of
                        (Inl e, fs1) \<Rightarrow> (Inl e, fs1)
                      | (Inr safe, fs1) \<Rightarrow> (Inr (fst safe), fs1))) = dirs fs"
      "denied (snd (case safe_extract_json_data render clk pg fs bd st of
                        (Inl e, fs1) \<Rightarrow> (Inl e :: exn + pyval, fs1)
                      | (Inr safe, fs1) \<Rightarrow> (Inr (fst safe), fs1))) = denied fs" for bd
    using layout_safe_extract [of render clk pg fs bd st]
    by (cases "safe_extract_json_data render clk pg fs bd st"; auto split: sum.splits)+
  show "dirs (snd (robust_attempt render clk pg fs st)) = dirs fs"
    by (simp add: robust_attempt_def Let_def a split: sum.splits)
  show "denied (snd (robust_attempt render clk pg fs st)) = denied fs"
    by (simp add: robust_attempt_def Let_def a split: sum.splits)
qed

lemma layout_robust [simp]:
  "dirs (snd (extract_business_details_robust render clk pg fs st)) = dirs fs"
  "denied (snd (extract_business_details_robust render clk pg fs st)) = denied fs"
proof -
  obtain r fs1 where a: "robust_attempt render clk pg fs st = (r, fs1)"
    by (cases "robust_attempt render clk pg fs st")
  have l: "dirs fs1 = dirs fs" "denied fs1 = denied fs"
    using layout_robust_attempt [of render clk pg fs st] a by simp_all
  show "dirs (snd (extract_business_details_robust render clk pg fs st)) = dirs fs"
    using a l by (simp add: extract_business_details_robust_def Let_def split: sum.splits)
  show "denied (snd (extract_business_details_robust render clk pg fs st)) = denied fs"
    using a l by (simp add: extract_business_details_robust_def Let_def split: sum.splits)
qed

subsection \<open>Stages that catch their own failures\<close>

lemma steady_content:
  "steady w \<Longrightarrow> evolves w w1 \<Longrightarrow> \<exists>markup. content (page_now w1) = Inr markup"
proof -
  assume s: "steady w" and e: "evolves w w1"
  have "steady w1" using s e by (rule steady_evolves)
  then have "readable_scene (current w1)" by (simp add: steady_def)
  then show ?thesis
    by (cases "content (view (current w1))") (simp_all add: readable_scene_def page_now_def)
qed

lemma fine_log: "evolves w w1 \<Longrightarrow> fine w (log_with_markup w1 st msg)"
  by (cases "content (page_now w1)") (simp_all add: fine_def log_with_markup_def evolves_disk)

lemma sound_log: "steady w \<Longrightarrow> evolves w w1 \<Longrightarrow> sound w (log_with_markup w1 st msg)"
proof -
  assume s: "steady w" and e: "evolves w w1"
  obtain markup where "content (page_now w1) = Inr markup"
    using steady_content [OF s e] by blast
  then show ?thesis
    using e by (simp add: sound_def log_with_markup_def evolves_disk)
qed

lemma fine_captcha: "evolves w w1 \<Longrightarrow> fine w (check_and_solve_captcha w1)"
  unfolding check_and_solve_captcha_def Let_def
  by (intro fine_then fine_reading evolves_sleep)
     (auto intro!: fine_then fine_act fine_pair evolves_sleep)

lemma evolves_navigate: "evolves w w1 \<Longrightarrow> evolves w (snd (navigate_to_homepage_first w1))"
proof -
  assume e: "evolves w w1"
  let ?primary = "then_step (act w1) (\<lambda>u w1.
           then_step (reading (page_title (page_now (sleep w1))) (sleep w1)) (\<lambda>title w2.
           then_step (check_and_solve_captcha w2) (\<lambda>c w3.
           then_step (act w3) (\<lambda>u w4.
           then_step (check_and_solve_captcha (sleep w4)) (\<lambda>c w5.
           then_step (reading (page_title (page_now w5)) w5) (\<lambda>title w6.
             (Inr True, w6)))))))"
  have p: "fine w ?primary"
    using e
    by (intro fine_then fine_act fine_reading fine_captcha fine_pair evolves_sleep)
  obtain r wp where pr: "?primary = (r, wp)" by (cases ?primary)
  have ep: "evolves w wp" using p pr by (simp add: fine_def)
  have f: "fine w (then_step (act wp) (\<lambda>u w1.
                 then_step (check_and_solve_captcha (sleep w1)) (\<lambda>c w2. (Inr True, w2))))"
    using ep by (intro fine_then fine_act fine_captcha fine_pair evolves_sleep)
  show ?thesis
    using ep f pr
    by (auto simp: navigate_to_homepage_first_def fine_def split: sum.splits prod.splits)
qed

lemma fine_select_radio: "evolves w w1 \<Longrightarrow> fine w (select_radio selector w1)"
  unfolding select_radio_def
  by (intro fine_then fine_reading)
     (auto intro!: fine_then fine_act fine_pair fine_reading evolves_sleep split: option.splits)

lemma sound_setup:
  "steady w \<Longrightarrow> evolves w w1 \<Longrightarrow> sound w (automated_search_setup st w1)"
  unfolding automated_search_setup_def
  by (intro sound_catch sound_then sound_log sound_return fine_then fine_select_radio
        fine_reading evolves_sleep)
     (auto intro!: fine_then fine_act fine_pair fine_log evolves_sleep split: option.splits)

lemma sound_search:
  "steady w \<Longrightarrow> evolves w w1 \<Longrightarrow> sound w (perform_search st w1)"
  unfolding perform_search_def
  by (intro sound_catch sound_then sound_log sound_return fine_then fine_captcha fine_reading)
     (auto intro!: fine_then fine_act fine_pair fine_log fine_captcha evolves_sleep
        split: option.splits)

lemma sound_links:
  "steady w \<Longrightarrow> evolves w w1 \<Longrightarrow> sound w (extract_business_links_from_results st w1)"
  unfolding extract_business_links_from_results_def
  by (intro sound_catch sound_then sound_log sound_return fine_then fine_reading evolves_sleep)
     (auto intro!: fine_then fine_pair fine_reading split: option.splits)

lemma sound_click:
  "steady w \<Longrightarrow> evolves w w1 \<Longrightarrow> sound w (click_business_by_index b st w1)"
  unfolding click_business_by_index_def
  by (intro sound_catch sound_then sound_log sound_return fine_then fine_reading)
     (auto intro!: fine_then fine_act fine_pair fine_log fine_captcha fine_reading evolves_sleep
        split: option.splits)

lemma evolves_return_results:
  "evolves w w1 \<Longrightarrow> evolves w (snd (return_to_search_results w1))"
proof -
  assume e: "evolves w w1"
  have "fine w (then_step (reading (query_selector (page_now w1)
                                 ''#MainContent_btnReturnToSearchResults'') w1)
             (\<lambda>return_btn w1.
                case return_btn of
                  Some element \<Rightarrow> then_step (act w1) (\<lambda>u w2. (Inr True, sleep w2))
                | None \<Rightarrow> then_step (act w1) (\<lambda>u w2. (Inr True, sleep w2))))"
    using e
    by (intro fine_then fine_reading)
       (auto intro!: fine_then fine_act fine_pair evolves_sleep split: option.splits)
  then show ?thesis
    by (auto simp: return_to_search_results_def fine_def split: sum.splits prod.splits)
qed

lemma evolves_return_page: "evolves w w1 \<Longrightarrow> evolves w (return_to_search_page w1)"
proof -
  assume e: "evolves w w1"
  have "fine w (then_step (act w1) (\<lambda>u w1. check_and_solve_captcha (sleep w1)))"
    using e by (intro fine_then fine_act fine_captcha evolves_sleep)
  then show ?thesis by (simp add: return_to_search_page_def fine_def)
qed

subsection \<open>What the tiers return\<close>

lemma string_valued_set:
  "string_valued d \<Longrightarrow> string_valued (dict_set d k (PStr v))"
  by (induction d) (auto simp: string_valued_def dict_set_def)

lemma string_valued_json: "string_valued d \<Longrightarrow> json_fault_items d = None"
  by (induction d) (auto simp: string_valued_def split: pyval.splits)

lemma string_valued_get:
  "string_valued d \<Longrightarrow> dict_get d k = PNone \<or> (\<exists>s. dict_get d k = PStr s)"
proof (induction d)
  case Nil
  then show ?case by (simp add: dict_get_def)
next
  case (Cons kv d)
  then show ?case
    by (cases kv) (auto simp: string_valued_def dict_get_def split: pyval.splits)
qed

lemma assign_fields_strings:
  "string_valued d0 \<Longrightarrow> assign_fields pg kls d0 = Inr d \<Longrightarrow> string_valued d"
proof (induction kls arbitrary: d0)
  case Nil
  then show ?case by simp
next
  case (Cons kl kls)
  obtain t where t: "get_element_text pg (snd kl) = Inr t"
    by (simp add: get_element_text_returns)
  have "string_valued (dict_set d0 (fst kl) (PStr t))"
    using Cons.prems(1) by (rule string_valued_set)
  moreover have "assign_fields pg kls (dict_set d0 (fst kl) (PStr t)) = Inr d"
    using Cons.prems(2) t by simp
  ultimately show ?case by (rule Cons.IH)
qed

lemma assign_fields_keys:
  "assign_fields pg kls d0 = Inr d \<Longrightarrow> fst ` set d \<subseteq> fst ` set d0 \<union> fst ` set kls"
proof (induction kls arbitrary: d0)
  case Nil
  then show ?case by simp
next
  case (Cons kl kls)
  obtain t where t: "get_element_text pg (snd kl) = Inr t"
    by (simp add: get_element_text_returns)
  have "assign_fields pg kls (dict_set d0 (fst kl) (PStr t)) = Inr d"
    using Cons.prems t by simp
  then have "fst ` set d \<subseteq> fst ` set (dict_set d0 (fst kl) (PStr t)) \<union> fst ` set kls"
    by (rule Cons.IH)
  then show ?case by (auto simp: keys_dict_set)
qed

lemma field_locators_keys: "fst ` set field_locators = set attribute_keys"
  by (simp add: field_locators_def attribute_keys_def)

lemma tier1_shape:
  assumes "extract_by_element_ids pg = Inr d"
  shows "string_valued d \<and> fst ` set d \<subseteq> set tier_keys"
proof -
  obtain d10 where a: "assign_fields pg field_locators [] = Inr d10"
    using assign_fields_total by blast
  obtain p where b: "extract_office_address pg ''principal'' = Inr p"
    using extract_office_address_total by blast
  obtain r where c: "extract_office_address pg ''registered'' = Inr r"
    using extract_office_address_total by blast
  have d: "d = dict_set (dict_set d10 ''principal_office_address'' (PStr p))
                 ''registered_office_address'' (PStr r)"
    using assms by (simp add: extract_by_element_ids_def a b c)
  have s10: "string_valued d10"
    by (rule assign_fields_strings [OF _ a]) (simp add: string_valued_def)
  have k10: "fst ` set d10 \<subseteq> set attribute_keys"
    using assign_fields_keys [OF a] by (simp add: field_locators_keys)
  have "string_valued d"
    unfolding d by (intro string_valued_set s10)
  moreover have "fst ` set d \<subseteq> set tier_keys"
    unfolding d using k10 by (auto simp: keys_dict_set tier_keys_def)
  ultimately show ?thesis by simp
qed

lemma scan_row_strings:
  "string_valued d \<Longrightarrow> scan_row r d = Inr d' \<Longrightarrow> string_valued d'"
  by (auto simp: scan_row_def bind_exn_def Let_def string_valued_set
      split: sum.splits if_splits option.splits)

lemma scan_rows_strings:
  "string_valued d \<Longrightarrow> string_valued (fst (scan_rows rs d))"
proof (induction rs arbitrary: d)
  case Nil
  then show ?case by simp
next
  case (Cons r rs)
  show ?case
  proof (cases "scan_row r d")
    case (Inl e)
    then show ?thesis using Cons.prems by simp
  next
    case (Inr d')
    have "string_valued d'" using Cons.prems Inr by (rule scan_row_strings)
    then have "string_valued (fst (scan_rows rs d'))" by (rule Cons.IH)
    then show ?thesis using Inr by simp
  qed
qed

lemma scan_tables_strings:
  "string_valued d \<Longrightarrow> string_valued (fst (scan_tables ts d))"
proof (induction ts arbitrary: d)
  case Nil
  then show ?case by simp
next
  case (Cons t ts)
  show ?case
  proof (cases t)
    case (Inl e)
    then show ?thesis using Cons.prems by simp
  next
    case (Inr rows)
    obtain d' err where s: "scan_rows rows d = (d', err)" by (cases "scan_rows rows d")
    have sv: "string_valued d'"
      using scan_rows_strings [OF Cons.prems, of rows] s by simp
    show ?thesis
    proof (cases err)
      case None
      have "string_valued (fst (scan_tables ts d'))" using sv by (rule Cons.IH)
      then show ?thesis using Inr s None by simp
    next
      case (Some e)
      then show ?thesis using sv Inr s by simp
    qed
  qed
qed

lemma tier2_strings: "extract_from_tables pg = Inr d \<Longrightarrow> string_valued d"
proof -
  assume a: "extract_from_tables pg = Inr d"
  have e: "string_valued []" by (simp add: string_valued_def)
  show ?thesis
  proof (cases "tables pg")
    case (Inl x)
    then show ?thesis using a e by (simp add: extract_from_tables_def)
  next
    case (Inr ts)
    then show ?thesis
      using a scan_tables_strings [OF e, of ts] by (simp add: extract_from_tables_def)
  qed
qed

lemma search_fields_strings:
  "string_valued d \<Longrightarrow> string_valued (search_fields fps t d)"
proof (induction fps arbitrary: d)
  case Nil
  then show ?case by simp
next
  case (Cons fp fps)
  show ?case
  proof (cases "first_match (snd fp) t")
    case None
    then show ?thesis using Cons.IH [OF Cons.prems] by simp
  next
    case (Some g)
    have "string_valued (dict_set d (fst fp) (PStr (py_strip g)))"
      using Cons.prems by (rule string_valued_set)
    then have "string_valued (search_fields fps t (dict_set d (fst fp) (PStr (py_strip g))))"
      by (rule Cons.IH)
    then show ?thesis using Some by simp
  qed
qed

lemma tier3_strings: "extract_from_page_text pg = Inr d \<Longrightarrow> string_valued d"
proof -
  assume a: "extract_from_page_text pg = Inr d"
  have e: "string_valued []" by (simp add: string_valued_def)
  show ?thesis
  proof (cases "content pg")
    case (Inl x)
    then show ?thesis using a e by (simp add: extract_from_page_text_def)
  next
    case (Inr t)
    then show ?thesis
      using a search_fields_strings [OF e, of patterns t] by (simp add: extract_from_page_text_def)
  qed
qed

lemma run_tiers_shape:
  "\<exists>ts d. run_tiers pg = Inr (ts, d) \<and> string_valued d \<and> fst ` set d \<subseteq> set tier_keys"
proof -
  obtain d1 where t1: "extract_by_element_ids pg = Inr d1"
    using extract_by_element_ids_total by blast
  obtain d2 where t2: "extract_from_tables pg = Inr d2"
    using extract_from_tables_total by blast
  obtain d3 where t3: "extract_from_page_text pg = Inr d3"
    using extract_from_page_text_total by blast
  have k: "set attribute_keys \<subseteq> set tier_keys" by (auto simp: tier_keys_def)
  have s1: "string_valued d1 \<and> fst ` set d1 \<subseteq> set tier_keys"
    using tier1_shape [OF t1] .
  have s2: "string_valued d2 \<and> fst ` set d2 \<subseteq> set tier_keys"
    using tier2_strings [OF t2] extract_from_tables_keys [OF t2] k by blast
  have s3: "string_valued d3 \<and> fst ` set d3 \<subseteq> set tier_keys"
    using tier3_strings [OF t3] extract_from_page_text_keys [OF t3] k by blast
  show ?thesis
    using s1 s2 s3 by (simp add: run_tiers_def t1 t2 t3)
qed

end
